theory Spec2Isabelle
  imports Complex_Main "HOL-Library.Log_Nat"
begin

section \<open>JavaScript numbers\<close>

text \<open>
  The program is TypeScript: every \<open>number\<close> is an IEEE 754 binary64 value. A number is
  modelled as a finite rational, an infinity or NaN, and every arithmetic operation
  rounds its exact result to the nearest binary64 value, ties to even (\<open>fl\<close>), with
  overflow to an infinity and the subnormal range below \<open>2 powi -1022\<close>. The sign of
  zero is left out: it shows only in a division by zero, and the program divides by
  its two baselines and by \<open>productionVolume\<close> only.
\<close>

datatype jsnum = Fin rat | PInf | NInf | NaN

text \<open>The exponent \<open>e\<close> with \<open>2 powi e \<le> x < 2 powi (e + 1)\<close>, for positive \<open>x\<close>.\<close>

definition ilog2 :: "rat \<Rightarrow> int" where
  "ilog2 x =
     (let d = bitlen (fst (quotient_of x)) - bitlen (snd (quotient_of x))
      in if 2 powi d \<le> x then d else d - 1)"

definition round_half_even :: "rat \<Rightarrow> int" where
  "round_half_even x =
     (let f = \<lfloor>x\<rfloor>; r = x - of_int f
      in if r < 1 / 2 then f
         else if 1 / 2 < r then f + 1
         else if even f then f else f + 1)"

text \<open>
  The exponent of the binary64 values around \<open>x\<close>, which is at least -1022, and their
  spacing: 53 significant bits.
\<close>

definition expo :: "rat \<Rightarrow> int" where
  "expo x = max (ilog2 \<bar>x\<bar>) (- 1022)"

definition quantum :: "rat \<Rightarrow> rat" where
  "quantum x = 2 powi (expo x - 52)"

text \<open>The nearest multiple of the spacing, and the number it is: an infinity from \<open>2 powi 1024\<close> on.\<close>

definition rnd :: "rat \<Rightarrow> rat" where
  "rnd x = of_int (round_half_even (x / quantum x)) * quantum x"

definition fl :: "rat \<Rightarrow> jsnum" where
  "fl x =
     (if x = 0 then Fin 0
      else let y = rnd x
           in if 2 powi 1024 \<le> \<bar>y\<bar> then (if 0 < x then PInf else NInf) else Fin y)"

fun js_neg :: "jsnum \<Rightarrow> jsnum" where
  "js_neg (Fin a) = Fin (- a)"
| "js_neg PInf = NInf"
| "js_neg NInf = PInf"
| "js_neg NaN = NaN"

fun js_add :: "jsnum \<Rightarrow> jsnum \<Rightarrow> jsnum" where
  "js_add NaN _ = NaN"
| "js_add _ NaN = NaN"
| "js_add (Fin a) (Fin b) = fl (a + b)"
| "js_add PInf NInf = NaN"
| "js_add NInf PInf = NaN"
| "js_add PInf _ = PInf"
| "js_add NInf _ = NInf"
| "js_add (Fin a) b = b"

definition js_sub :: "jsnum \<Rightarrow> jsnum \<Rightarrow> jsnum" where
  "js_sub a b = js_add a (js_neg b)"

fun js_sign_inf :: "rat \<Rightarrow> jsnum \<Rightarrow> jsnum" where
  "js_sign_inf a i = (if a = 0 then NaN else if 0 < a then i else js_neg i)"

fun js_mul :: "jsnum \<Rightarrow> jsnum \<Rightarrow> jsnum" where
  "js_mul NaN _ = NaN"
| "js_mul _ NaN = NaN"
| "js_mul (Fin a) (Fin b) = fl (a * b)"
| "js_mul (Fin a) b = js_sign_inf a b"
| "js_mul a (Fin b) = js_sign_inf b a"
| "js_mul PInf b = b"
| "js_mul NInf b = js_neg b"

fun js_div :: "jsnum \<Rightarrow> jsnum \<Rightarrow> jsnum" where
  "js_div NaN _ = NaN"
| "js_div _ NaN = NaN"
| "js_div (Fin a) (Fin b) = (if b = 0 then js_sign_inf a PInf else fl (a / b))"
| "js_div (Fin a) b = Fin 0"
| "js_div a (Fin b) = (if 0 \<le> b then a else js_neg a)"
| "js_div a b = NaN"

fun Math_max :: "jsnum \<Rightarrow> jsnum \<Rightarrow> jsnum" where
  "Math_max NaN _ = NaN"
| "Math_max _ NaN = NaN"
| "Math_max (Fin a) (Fin b) = Fin (max a b)"
| "Math_max PInf _ = PInf"
| "Math_max _ PInf = PInf"
| "Math_max NInf b = b"
| "Math_max a NInf = a"

fun Math_min :: "jsnum \<Rightarrow> jsnum \<Rightarrow> jsnum" where
  "Math_min NaN _ = NaN"
| "Math_min _ NaN = NaN"
| "Math_min (Fin a) (Fin b) = Fin (min a b)"
| "Math_min NInf _ = NInf"
| "Math_min _ NInf = NInf"
| "Math_min PInf b = b"
| "Math_min a PInf = a"

text \<open>The order of the numbers; NaN compares with nothing.\<close>

fun js_le :: "jsnum \<Rightarrow> jsnum \<Rightarrow> bool" where
  "js_le NaN _ = False"
| "js_le _ NaN = False"
| "js_le (Fin a) (Fin b) = (a \<le> b)"
| "js_le NInf _ = True"
| "js_le _ PInf = True"
| "js_le _ _ = False"

text \<open>\<open>Math.round\<close>: the nearest integer, a tie going towards plus infinity; exact.\<close>

fun Math_round :: "jsnum \<Rightarrow> jsnum" where
  "Math_round (Fin a) = Fin (of_int \<lfloor>a + 1 / 2\<rfloor>)"
| "Math_round x = x"

text \<open>A decimal literal of the source denotes the binary64 value nearest to it.\<close>

definition lit :: "rat \<Rightarrow> jsnum" where
  "lit x = fl x"


section \<open>The data model\<close>

text \<open>
  The types of \<open>@shared/schema\<close> as the two source files use them. TypeScript's types are
  structural, and so are extensible records: \<open>InsertScenario\<close> extends
  \<open>ProcessParameters\<close> by the name, the argument of \<open>createScenario\<close> extends that by
  the four metrics, and \<open>Scenario\<close> adds \<open>id\<close> and \<open>createdAt\<close>. An id, and the counter
  the ids come from, is an integer: the program's numbers hold every integer up to
  \<open>2 ^ 53\<close> exactly, and \<open>currentId++\<close> is exact below that. A \<open>Date\<close> is its
  \<open>getTime()\<close>, in milliseconds. The names and the messages, which the program only
  passes on, are lists of characters; the id of a request, which it parses, is the list
  of its 16-bit code units (\<open>js_string\<close>, in the section on the routes).
\<close>

record SustainabilityMetrics =
  carbonFootprint :: jsnum
  waterEfficiency :: jsnum
  energyEfficiency :: jsnum
  sustainabilityScore :: jsnum

record ProcessParameters =
  energyConsumption :: jsnum
  wasteGeneration :: jsnum
  waterUsage :: jsnum
  rawMaterials :: jsnum
  productionVolume :: jsnum

record InsertScenario = ProcessParameters +
  name :: string

record ScenarioData = InsertScenario +
  carbonFootprint :: jsnum
  waterEfficiency :: jsnum
  energyEfficiency :: jsnum
  sustainabilityScore :: jsnum

record Scenario = ScenarioData +
  id :: int
  createdAt :: int

section \<open>storage.ts\<close>

subsection \<open>The built-in \<open>Map\<close> and \<open>Array.prototype.sort\<close>\<close>

text \<open>
  A JavaScript \<open>Map\<close> keeps its entries in insertion order: \<open>set\<close> on a present key
  replaces the value where it stands, on an absent key it appends; \<open>delete\<close> says
  whether the key was there.
\<close>

type_synonym ('k, 'v) Map = "('k \<times> 'v) list"

definition Map_get :: "('k, 'v) Map \<Rightarrow> 'k \<Rightarrow> 'v option" where
  "Map_get m k = map_of m k"

fun Map_set :: "('k, 'v) Map \<Rightarrow> 'k \<Rightarrow> 'v \<Rightarrow> ('k, 'v) Map" where
  "Map_set [] k v = [(k, v)]"
| "Map_set ((k', v') # m) k v = (if k' = k then (k, v) # m else (k', v') # Map_set m k v)"

definition Map_has :: "('k, 'v) Map \<Rightarrow> 'k \<Rightarrow> bool" where
  "Map_has m k = (Map_get m k \<noteq> None)"

definition Map_delete :: "('k, 'v) Map \<Rightarrow> 'k \<Rightarrow> bool \<times> ('k, 'v) Map" where
  "Map_delete m k = (Map_has m k, filter (\<lambda>e. fst e \<noteq> k) m)"

definition Map_values :: "('k, 'v) Map \<Rightarrow> 'v list" where
  "Map_values m = map snd m"

text \<open>
  \<open>sort\<close> with a comparison function is stable: an element goes in front of the first
  one it does not compare greater than, so equal elements keep their order.
\<close>

fun sort_insert :: "('a \<Rightarrow> 'a \<Rightarrow> int) \<Rightarrow> 'a \<Rightarrow> 'a list \<Rightarrow> 'a list" where
  "sort_insert cmp x [] = [x]"
| "sort_insert cmp x (y # ys) = (if cmp x y \<le> 0 then x # y # ys else y # sort_insert cmp x ys)"

definition Array_sort :: "('a \<Rightarrow> 'a \<Rightarrow> int) \<Rightarrow> 'a list \<Rightarrow> 'a list" where
  "Array_sort cmp xs = foldr (sort_insert cmp) xs []"

subsection \<open>\<open>MemStorage\<close>\<close>

record MemStorage =
  scenarios :: "(int, Scenario) Map"
  currentId :: int

text \<open>
  The three literals of \<open>initializeDefaultScenarios\<close>. Each holds its own \<open>new Date()\<close>,
  so the three times are parameters; the id is what the loop adds, so a literal is a
  function of it.
\<close>

definition defaultScenarios :: "int \<Rightarrow> int \<Rightarrow> int \<Rightarrow> (int \<Rightarrow> Scenario) list" where
  "defaultScenarios t1 t2 t3 =
     [\<lambda>i. \<lparr>energyConsumption = Fin 5000, wasteGeneration = Fin 1200, waterUsage = Fin 25000,
           rawMaterials = Fin 8000, productionVolume = Fin 10000,
           name = ''Cen'' @ [char_of (0xE1 :: nat)] @ ''rio Atual'',
           carbonFootprint = lit (28 / 10), waterEfficiency = Fin 72,
           energyEfficiency = Fin 85, sustainabilityScore = Fin 76,
           id = i, createdAt = t1\<rparr>,
      \<lambda>i. \<lparr>energyConsumption = Fin 3500, wasteGeneration = Fin 800, waterUsage = Fin 18000,
           rawMaterials = Fin 7500, productionVolume = Fin 10000,
           name = ''Cen'' @ [char_of (0xE1 :: nat)] @ ''rio Otimizado'',
           carbonFootprint = lit 2, waterEfficiency = Fin 85,
           energyEfficiency = Fin 92, sustainabilityScore = Fin 89,
           id = i, createdAt = t2\<rparr>,
      \<lambda>i. \<lparr>energyConsumption = Fin 2500, wasteGeneration = Fin 600, waterUsage = Fin 15000,
           rawMaterials = Fin 7000, productionVolume = Fin 10000,
           name = ''Cen'' @ [char_of (0xE1 :: nat)] @ ''rio Verde'',
           carbonFootprint = lit (14 / 10), waterEfficiency = Fin 92,
           energyEfficiency = Fin 96, sustainabilityScore = Fin 94,
           id = i, createdAt = t3\<rparr>]"

text \<open>The body of the \<open>forEach\<close>: \<open>const id = this.currentId++\<close>, then \<open>set\<close>.\<close>

fun forEach_default :: "(int \<Rightarrow> Scenario) list \<Rightarrow> MemStorage \<Rightarrow> MemStorage" where
  "forEach_default [] st = st"
| "forEach_default (scenario # rest) st =
     (let i = currentId st;
          st1 = st\<lparr>currentId := currentId st + 1\<rparr>;
          fullScenario = scenario i
      in forEach_default rest (st1\<lparr>scenarios := Map_set (scenarios st1) i fullScenario\<rparr>))"

definition initializeDefaultScenarios :: "int \<Rightarrow> int \<Rightarrow> int \<Rightarrow> MemStorage \<Rightarrow> MemStorage" where
  "initializeDefaultScenarios t1 t2 t3 st = forEach_default (defaultScenarios t1 t2 t3) st"

text \<open>The constructor.\<close>

definition MemStorage_new :: "int \<Rightarrow> int \<Rightarrow> int \<Rightarrow> MemStorage" where
  "MemStorage_new t1 t2 t3 =
     initializeDefaultScenarios t1 t2 t3 \<lparr>scenarios = [], currentId = 1\<rparr>"

text \<open>
  The four methods. Each returns its result and the store it leaves, so that what a
  method does not change can be stated. \<open>createScenario\<close> takes the time \<open>new Date()\<close>
  reads.
\<close>

definition getScenario :: "MemStorage \<Rightarrow> int \<Rightarrow> Scenario option \<times> MemStorage" where
  "getScenario st i = (Map_get (scenarios st) i, st)"

definition compare_createdAt :: "Scenario \<Rightarrow> Scenario \<Rightarrow> int" where
  "compare_createdAt a b = createdAt b - createdAt a"

definition getAllScenarios :: "MemStorage \<Rightarrow> Scenario list \<times> MemStorage" where
  "getAllScenarios st = (Array_sort compare_createdAt (Map_values (scenarios st)), st)"

definition createScenario :: "MemStorage \<Rightarrow> ScenarioData \<Rightarrow> int \<Rightarrow> Scenario \<times> MemStorage" where
  "createScenario st insertScenario now =
     (let i = currentId st;
          st1 = st\<lparr>currentId := currentId st + 1\<rparr>;
          scenario = ScenarioData.extend insertScenario (Scenario.fields i now)
      in (scenario, st1\<lparr>scenarios := Map_set (scenarios st1) i scenario\<rparr>))"

definition deleteScenario :: "MemStorage \<Rightarrow> int \<Rightarrow> bool \<times> MemStorage" where
  "deleteScenario st i =
     (let (r, m) = Map_delete (scenarios st) i in (r, st\<lparr>scenarios := m\<rparr>))"


subsection \<open>The states a store goes through\<close>

text \<open>
  A store is built by the constructor and then changed only by its own methods;
  \<open>getScenario\<close> and \<open>getAllScenarios\<close> leave it as it is.
\<close>

inductive reachable :: "MemStorage \<Rightarrow> bool" where
  new: "reachable (MemStorage_new t1 t2 t3)"
| create: "reachable st \<Longrightarrow> reachable (snd (createScenario st insertScenario now))"
| delete: "reachable st \<Longrightarrow> reachable (snd (deleteScenario st i))"

text \<open>
  What every such store satisfies: the counter is positive, a key occurs once, it is
  the id of the scenario it leads to, and it is positive and below the counter.
\<close>

definition store_inv :: "MemStorage \<Rightarrow> bool" where
  "store_inv st =
     (0 < currentId st \<and> distinct (map fst (scenarios st)) \<and>
      list_all (\<lambda>e. Scenario.id (snd e) = fst e \<and> 0 < fst e \<and> fst e < currentId st)
        (scenarios st))"

text \<open>A sequence of create and delete calls, and the ids its creates return, in order.\<close>

datatype store_op = Create ScenarioData int | Delete int

fun created_ids :: "store_op list \<Rightarrow> MemStorage \<Rightarrow> int list" where
  "created_ids [] st = []"
| "created_ids (Create insertScenario now # ops) st =
     (let (scenario, st') = createScenario st insertScenario now
      in Scenario.id scenario # created_ids ops st')"
| "created_ids (Delete i # ops) st = created_ids ops (snd (deleteScenario st i))"

fun is_Create :: "store_op \<Rightarrow> bool" where
  "is_Create (Create _ _) = True"
| "is_Create (Delete _) = False"

section \<open>routes.ts\<close>

subsection \<open>\<open>calculateSustainabilityMetrics\<close>\<close>

text \<open>
  The four local constants of the function, each as a function of \<open>params\<close>, and the
  object it returns. \<open>a / b * c\<close> is \<open>(a / b) * c\<close>.
\<close>

definition carbonFootprint_local :: "'a ProcessParameters_scheme \<Rightarrow> jsnum" where
  "carbonFootprint_local params =
     js_add (js_mul (energyConsumption params) (lit (5 / 10000)))
            (js_mul (wasteGeneration params) (lit (1 / 1000)))"

definition waterEfficiency_local :: "'a ProcessParameters_scheme \<Rightarrow> jsnum" where
  "waterEfficiency_local params =
     (let waterUsagePerUnit = js_div (waterUsage params) (productionVolume params);
          baselineWaterUsage = lit (25 / 10)
      in Math_max (Fin 0) (Math_min (Fin 100)
           (js_sub (Fin 100)
              (js_mul (js_div (js_sub waterUsagePerUnit baselineWaterUsage) baselineWaterUsage)
                      (Fin 100)))))"

definition energyEfficiency_local :: "'a ProcessParameters_scheme \<Rightarrow> jsnum" where
  "energyEfficiency_local params =
     (let energyPerUnit = js_div (energyConsumption params) (productionVolume params);
          baselineEnergy = lit (5 / 10)
      in Math_max (Fin 0) (Math_min (Fin 100)
           (js_sub (Fin 100)
              (js_mul (js_div (js_sub energyPerUnit baselineEnergy) baselineEnergy)
                      (Fin 100)))))"

definition sustainabilityScore_local :: "'a ProcessParameters_scheme \<Rightarrow> jsnum" where
  "sustainabilityScore_local params =
     js_div (js_add (waterEfficiency_local params) (energyEfficiency_local params)) (Fin 2)"

definition calculateSustainabilityMetrics ::
    "'a ProcessParameters_scheme \<Rightarrow> SustainabilityMetrics" where
  "calculateSustainabilityMetrics params =
     \<lparr>SustainabilityMetrics.carbonFootprint =
        js_div (Math_round (js_mul (carbonFootprint_local params) (Fin 10))) (Fin 10),
      SustainabilityMetrics.waterEfficiency = Math_round (waterEfficiency_local params),
      SustainabilityMetrics.energyEfficiency = Math_round (energyEfficiency_local params),
      SustainabilityMetrics.sustainabilityScore = Math_round (sustainabilityScore_local params)\<rparr>"

subsection \<open>\<open>parseInt\<close> and \<open>isNaN\<close>\<close>

text \<open>
  A JavaScript string is a sequence of 16-bit code units, here natural numbers; \<open>str\<close>
  writes one down from its characters.
\<close>

type_synonym js_string = "nat list"

definition str :: "string \<Rightarrow> js_string" where
  "str s = map of_char s"

text \<open>
  \<open>parseInt(string)\<close> without a radix: leading white space is dropped (the white space
  and line terminators of ECMAScript: tab, line feed, vertical tab, form feed, carriage
  return, space, no-break space, U+1680, U+2000 to U+200A, U+2028, U+2029, U+202F,
  U+205F, U+3000 and U+FEFF), then a sign, then \<open>0x\<close> or \<open>0X\<close> (which makes the radix
  16); the digits that follow, up to the first code unit that is not one, are the
  integer, and NaN is returned when there is none. Whatever follows the digits is
  ignored. The result is a number: the binary64 value nearest to the signed integer,
  which is the integer itself up to \<open>2 ^ 53\<close> and an infinity for very many digits.
\<close>

definition StrWhiteSpaceChar :: "nat \<Rightarrow> bool" where
  "StrWhiteSpaceChar c =
     (c \<in> {0x09, 0x0A, 0x0B, 0x0C, 0x0D, 0x20, 0xA0, 0x1680, 0x2028, 0x2029, 0x202F,
            0x205F, 0x3000, 0xFEFF} \<or>
      (0x2000 \<le> c \<and> c \<le> 0x200A))"

definition digit_value :: "nat \<Rightarrow> nat option" where
  "digit_value c =
     (if 48 \<le> c \<and> c \<le> 57 then Some (c - 48)
      else if 97 \<le> c \<and> c \<le> 102 then Some (c - 87)
      else if 65 \<le> c \<and> c \<le> 70 then Some (c - 55)
      else None)"

definition is_digit :: "nat \<Rightarrow> nat \<Rightarrow> bool" where
  "is_digit R c = (case digit_value c of None \<Rightarrow> False | Some d \<Rightarrow> d < R)"

definition digits_value :: "nat \<Rightarrow> js_string \<Rightarrow> nat" where
  "digits_value R Z = foldl (\<lambda>n c. n * R + the (digit_value c)) 0 Z"

definition parseInt :: "js_string \<Rightarrow> jsnum" where
  "parseInt inputString =
     (let S = dropWhile StrWhiteSpaceChar inputString;
          sign = (if S \<noteq> [] \<and> hd S = of_char (CHR ''-'') then - 1 else 1 :: int);
          S1 = (if S \<noteq> [] \<and> (hd S = of_char (CHR ''+'') \<or> hd S = of_char (CHR ''-''))
                then tl S else S);
          hex = (take 2 S1 = str ''0x'' \<or> take 2 S1 = str ''0X'');
          R = (if hex then 16 else 10);
          S2 = (if hex then drop 2 S1 else S1);
          Z = takeWhile (is_digit R) S2
      in if Z = [] then NaN else fl (of_int (sign * int (digits_value R Z))))"

definition isNaN :: "jsnum \<Rightarrow> bool" where
  "isNaN n = (n = NaN)"

text \<open>
  The two routes hand the number to the store. The keys of its map are integers, and a
  number is a key only if it is one of them: for any other number (here an infinity,
  from very many digits) \<open>get\<close> finds nothing, \<open>delete\<close> returns false, and the map stays
  as it is.
\<close>

definition number_key :: "jsnum \<Rightarrow> int option" where
  "number_key x =
     (case x of Fin r \<Rightarrow> (if of_int \<lfloor>r\<rfloor> = r then Some \<lfloor>r\<rfloor> else None) | _ \<Rightarrow> None)"

definition getScenario_number :: "MemStorage \<Rightarrow> jsnum \<Rightarrow> Scenario option \<times> MemStorage" where
  "getScenario_number st x =
     (case number_key x of Some i \<Rightarrow> getScenario st i | None \<Rightarrow> (None, st))"

definition deleteScenario_number :: "MemStorage \<Rightarrow> jsnum \<Rightarrow> bool \<times> MemStorage" where
  "deleteScenario_number st x =
     (case number_key x of Some i \<Rightarrow> deleteScenario st i | None \<Rightarrow> (False, st))"

subsection \<open>\<open>registerRoutes\<close>\<close>

text \<open>
  A handler takes the store and the request and returns the response and the store.
  \<open>res.json\<close> answers with status 200 unless \<open>res.status\<close> was called. The two schemas
  of \<open>@shared/schema\<close> are parameters: \<open>parse\<close> returns the parsed value or the errors
  of the \<open>ZodError\<close> it throws. Nothing else in a handler can throw, so the
  \<open>catch\<close> branches that answer 500 are never taken.
\<close>

datatype 'e body =
    ScenarioList "Scenario list"
  | ScenarioBody Scenario
  | MetricsBody SustainabilityMetrics
  | Message string
  | MessageErrors string 'e

record 'e response =
  status :: nat
  body :: "'e body"

definition get_scenarios :: "MemStorage \<Rightarrow> 'e response \<times> MemStorage" where
  "get_scenarios st =
     (let (scenarios, st') = getAllScenarios st
      in (\<lparr>status = 200, body = ScenarioList scenarios\<rparr>, st'))"

definition get_scenario_by_id :: "MemStorage \<Rightarrow> js_string \<Rightarrow> 'e response \<times> MemStorage" where
  "get_scenario_by_id st id_param =
     (let i = parseInt id_param
      in if isNaN i then (\<lparr>status = 400, body = Message ''Invalid scenario ID''\<rparr>, st)
         else let (scenario, st') = getScenario_number st i
              in case scenario of
                   None \<Rightarrow> (\<lparr>status = 404, body = Message ''Scenario not found''\<rparr>, st')
                 | Some sc \<Rightarrow> (\<lparr>status = 200, body = ScenarioBody sc\<rparr>, st'))"

definition post_calculate_metrics ::
    "('b \<Rightarrow> 'e + ProcessParameters) \<Rightarrow> MemStorage \<Rightarrow> 'b \<Rightarrow> 'e response \<times> MemStorage" where
  "post_calculate_metrics processParametersSchema_parse st req_body =
     (case processParametersSchema_parse req_body of
        Inl errors \<Rightarrow> (\<lparr>status = 400, body = MessageErrors ''Invalid parameters'' errors\<rparr>, st)
      | Inr params \<Rightarrow>
          (\<lparr>status = 200, body = MetricsBody (calculateSustainabilityMetrics params)\<rparr>, st))"

text \<open>The object \<open>{...scenarioData, ...metrics}\<close>.\<close>

definition spread :: "InsertScenario \<Rightarrow> SustainabilityMetrics \<Rightarrow> ScenarioData" where
  "spread scenarioData metrics =
     InsertScenario.extend scenarioData
       (ScenarioData.fields (SustainabilityMetrics.carbonFootprint metrics)
          (SustainabilityMetrics.waterEfficiency metrics)
          (SustainabilityMetrics.energyEfficiency metrics)
          (SustainabilityMetrics.sustainabilityScore metrics))"

definition post_scenarios ::
    "('b \<Rightarrow> 'e + InsertScenario) \<Rightarrow> MemStorage \<Rightarrow> 'b \<Rightarrow> int \<Rightarrow> 'e response \<times> MemStorage" where
  "post_scenarios insertScenarioSchema_parse st req_body now =
     (case insertScenarioSchema_parse req_body of
        Inl errors \<Rightarrow> (\<lparr>status = 400, body = MessageErrors ''Invalid scenario data'' errors\<rparr>, st)
      | Inr scenarioData \<Rightarrow>
          (let metrics = calculateSustainabilityMetrics scenarioData;
               (scenario, st') = createScenario st (spread scenarioData metrics) now
           in (\<lparr>status = 200, body = ScenarioBody scenario\<rparr>, st')))"

definition delete_scenario :: "MemStorage \<Rightarrow> js_string \<Rightarrow> 'e response \<times> MemStorage" where
  "delete_scenario st id_param =
     (let i = parseInt id_param
      in if isNaN i then (\<lparr>status = 400, body = Message ''Invalid scenario ID''\<rparr>, st)
         else let (deleted, st') = deleteScenario_number st i
              in if \<not> deleted
                 then (\<lparr>status = 404, body = Message ''Scenario not found''\<rparr>, st')
                 else (\<lparr>status = 200, body = Message ''Scenario deleted successfully''\<rparr>, st'))"

subsection \<open>The states the server goes through\<close>

text \<open>
  \<open>routes.ts\<close> is the only user of the store: it is built once, when \<open>storage.ts\<close> is
  loaded, and changed by the requests the five routes answer. A request to create
  carries the time at which its \<open>new Date()\<close> is read.
\<close>

datatype 'b request =
    GET_scenarios
  | GET_scenario js_string
  | POST_calculate_metrics 'b
  | POST_scenarios 'b int
  | DELETE_scenario js_string

fun handle ::
    "('b \<Rightarrow> 'e + ProcessParameters) \<Rightarrow> ('b \<Rightarrow> 'e + InsertScenario) \<Rightarrow>
     MemStorage \<Rightarrow> 'b request \<Rightarrow> 'e response \<times> MemStorage" where
  "handle pp ins st GET_scenarios = get_scenarios st"
| "handle pp ins st (GET_scenario id_param) = get_scenario_by_id st id_param"
| "handle pp ins st (POST_calculate_metrics b) = post_calculate_metrics pp st b"
| "handle pp ins st (POST_scenarios b now) = post_scenarios ins st b now"
| "handle pp ins st (DELETE_scenario id_param) = delete_scenario st id_param"

inductive served ::
    "('b \<Rightarrow> 'e + ProcessParameters) \<Rightarrow> ('b \<Rightarrow> 'e + InsertScenario) \<Rightarrow> MemStorage \<Rightarrow> bool"
    for pp :: "'b \<Rightarrow> 'e + ProcessParameters" and ins :: "'b \<Rightarrow> 'e + InsertScenario" where
  start: "served pp ins (MemStorage_new t1 t2 t3)"
| request: "served pp ins st \<Longrightarrow> served pp ins (snd (handle pp ins st req))"

text \<open>The metrics a stored scenario carries.\<close>

definition metrics_of :: "Scenario \<Rightarrow> SustainabilityMetrics" where
  "metrics_of s =
     \<lparr>SustainabilityMetrics.carbonFootprint = carbonFootprint s,
      SustainabilityMetrics.waterEfficiency = waterEfficiency s,
      SustainabilityMetrics.energyEfficiency = energyEfficiency s,
      SustainabilityMetrics.sustainabilityScore = sustainabilityScore s\<rparr>"

text \<open>
  An id as the interface describes it, "a valid positive integer": decimal digits
  and nothing else, with a value above zero.
\<close>

definition valid_positive_integer :: "js_string \<Rightarrow> bool" where
  "valid_positive_integer s = (s \<noteq> [] \<and> list_all (is_digit 10) s \<and> 0 < digits_value 10 s)"

section \<open>Rounding to binary64\<close>

subsection \<open>Exponents and rounding to an integer\<close>


lemma bitlen_pos: "0 < p \<Longrightarrow> 1 \<le> bitlen p"
  using bitlen_eq_zero_iff [of p] bitlen_nonneg [of p] by linarith

lemma bitlen_bounds_rat:
  assumes "0 < p"
  shows "2 powi (bitlen p - 1) \<le> (of_int p :: rat)" and "(of_int p :: rat) < 2 powi bitlen p"
proof -
  have b: "1 \<le> bitlen p" using assms by (rule bitlen_pos)
  have "2 ^ nat (bitlen p - 1) \<le> p" and "p < 2 ^ nat (bitlen p)"
    using bitlen_bounds [OF assms] by auto
  then have "(of_int (2 ^ nat (bitlen p - 1)) :: rat) \<le> of_int p"
    and "(of_int p :: rat) < of_int (2 ^ nat (bitlen p))"
    by (simp_all only: of_int_le_iff of_int_less_iff)
  then show "2 powi (bitlen p - 1) \<le> (of_int p :: rat)" and "(of_int p :: rat) < 2 powi bitlen p"
    using b by (simp_all add: power_int_nonneg_exp)
qed

lemma powi2_pos: "(0::rat) < 2 powi e"
  by simp

lemma powi2_mono: "e \<le> e' \<Longrightarrow> (2::rat) powi e \<le> 2 powi e'"
  by (rule power_int_increasing) simp_all

lemma powi2_strict_mono: "e < e' \<Longrightarrow> (2::rat) powi e < 2 powi e'"
  by (rule power_int_strict_increasing) simp_all

lemma powi2_add: "(2::rat) powi (a + b) = 2 powi a * 2 powi b"
  by (rule power_int_add) simp

lemma powi2_diff: "(2::rat) powi (a - b) = 2 powi a / 2 powi b"
  by (rule power_int_diff) simp

lemma ilog2_bounds:
  assumes "0 < x"
  shows "2 powi ilog2 x \<le> x" and "x < 2 powi (ilog2 x + 1)"
proof -
  obtain p q where pq: "quotient_of x = (p, q)" by force
  have q: "0 < q" using quotient_of_denom_pos [OF pq] .
  have x: "x = of_int p / of_int q" using quotient_of_div [OF pq] .
  have p: "0 < p" using assms q by (simp add: x zero_less_divide_iff)
  define d where "d = bitlen p - bitlen q"
  have lo: "2 powi (d - 1) \<le> x"
  proof -
    have "2 powi (d - 1) * of_int q \<le> 2 powi (d - 1) * (2::rat) powi bitlen q"
      using bitlen_bounds_rat(2) [OF q] by (simp add: less_imp_le)
    also have "\<dots> = 2 powi (bitlen p - 1)"
      by (simp add: d_def powi2_add [symmetric])
    also have "\<dots> \<le> of_int p" using bitlen_bounds_rat(1) [OF p] .
    finally show ?thesis using q by (simp add: x pos_le_divide_eq)
  qed
  have hi: "x < 2 powi (d + 1)"
  proof -
    have "(of_int p :: rat) < 2 powi bitlen p" using bitlen_bounds_rat(2) [OF p] .
    also have "\<dots> = 2 powi (d + 1) * 2 powi (bitlen q - 1)"
      by (simp add: d_def powi2_add [symmetric])
    also have "\<dots> \<le> 2 powi (d + 1) * of_int q"
      using bitlen_bounds_rat(1) [OF q] by simp
    finally show ?thesis using q by (simp add: x pos_divide_less_eq)
  qed
  have e: "ilog2 x = (if 2 powi d \<le> x then d else d - 1)"
    by (simp add: ilog2_def Let_def pq d_def)
  show "2 powi ilog2 x \<le> x" using lo by (simp add: e)
  show "x < 2 powi (ilog2 x + 1)" using hi by (simp add: e not_le)
qed

lemma ilog2_unique:
  assumes "2 powi e \<le> x" and "x < 2 powi (e + 1)"
  shows "ilog2 x = e"
proof -
  have x: "0 < x" using assms(1) powi2_pos [of e] by linarith
  have "(2::rat) powi ilog2 x < 2 powi (e + 1)"
    using ilog2_bounds(1) [OF x] assms(2) by linarith
  then have a: "ilog2 x < e + 1"
    using powi2_mono [of "e + 1" "ilog2 x"] by (cases "ilog2 x < e + 1") auto
  have "(2::rat) powi e < 2 powi (ilog2 x + 1)"
    using ilog2_bounds(2) [OF x] assms(1) by linarith
  then have b: "e < ilog2 x + 1"
    using powi2_mono [of "ilog2 x + 1" e] by (cases "e < ilog2 x + 1") auto
  show ?thesis using a b by linarith
qed

lemma ilog2_mono:
  assumes "0 < x" and "x \<le> y"
  shows "ilog2 x \<le> ilog2 y"
proof -
  have y: "0 < y" using assms by linarith
  have "(2::rat) powi ilog2 x < 2 powi (ilog2 y + 1)"
    using ilog2_bounds(1) [OF assms(1)] ilog2_bounds(2) [OF y] assms(2) by linarith
  then have "ilog2 x < ilog2 y + 1"
    using powi2_mono [of "ilog2 y + 1" "ilog2 x"] by (cases "ilog2 x < ilog2 y + 1") auto
  then show ?thesis by simp
qed

lemma round_half_even_bounds:
  "of_int (round_half_even x) - 1 / 2 \<le> x" "x \<le> of_int (round_half_even x) + 1 / 2"
  unfolding round_half_even_def Let_def by (auto simp: not_less) linarith+

lemma round_half_even_unique:
  assumes "of_int m - 1 / 2 < x" and "x < of_int m + 1 / 2"
  shows "round_half_even x = m"
proof -
  have "\<bar>of_int (round_half_even x) - (of_int m :: rat)\<bar> < 1"
    using round_half_even_bounds [of x] assms by linarith
  then have "\<bar>round_half_even x - m\<bar> < 1"
    by (metis of_int_abs of_int_diff of_int_less_1_iff)
  then show ?thesis by linarith
qed

lemma round_half_even_of_int [simp]: "round_half_even (of_int m) = m"
  by (rule round_half_even_unique) simp_all

lemma round_half_even_tie:
  "round_half_even (of_int m + 1 / 2) = (if even m then m else m + 1)"
proof -
  have f: "\<lfloor>of_int m + (1 / 2 :: rat)\<rfloor> = m" by linarith
  show ?thesis by (simp add: round_half_even_def Let_def f)
qed

lemma round_half_even_mono:
  assumes "x \<le> y"
  shows "round_half_even x \<le> round_half_even y"
proof (rule ccontr)
  assume "\<not> round_half_even x \<le> round_half_even y"
  then have gt: "round_half_even y + 1 \<le> round_half_even x" by simp
  then have "(of_int (round_half_even y) :: rat) + 1 \<le> of_int (round_half_even x)"
    by (metis of_int_1 of_int_add of_int_le_iff)
  then have eq: "x = of_int (round_half_even y) + 1 / 2" "y = x"
    "of_int (round_half_even x) = (of_int (round_half_even y) :: rat) + 1"
    using round_half_even_bounds [of x] round_half_even_bounds [of y] assms by linarith+
  have "round_half_even x = round_half_even y" using eq(2) by simp
  then show False using gt by simp
qed

subsection \<open>A rounding from its exponent and significand\<close>

text \<open>
  The value of \<open>fl x\<close> for a given \<open>x\<close> follows from the exponent \<open>e\<close> of \<open>x\<close> and the
  integer nearest to \<open>x / 2 powi (e - 52)\<close>; giving both turns a rounding into
  comparisons of rationals.
\<close>


lemma quantum_pos: "0 < quantum x"
  by (simp add: quantum_def)

lemma quantum_eq:
  assumes "2 powi e \<le> \<bar>x\<bar>" and "\<bar>x\<bar> < 2 powi (e + 1)"
  shows "quantum x = 2 powi (max e (- 1022) - 52)"
  using ilog2_unique [OF assms] by (simp add: quantum_def expo_def)

lemma fl_normal:
  assumes "2 powi e \<le> \<bar>x\<bar>" and "\<bar>x\<bar> < 2 powi (e + 1)" and "- 1022 \<le> e" and "e \<le> 1022"
    and "round_half_even (x / 2 powi (e - 52)) = m"
  shows "fl x = Fin (of_int m * 2 powi (e - 52))"
proof -
  let ?q = "(2::rat) powi (e - 52)"
  have q: "quantum x = ?q" using quantum_eq [OF assms(1,2)] assms(3) by simp
  have x0: "x \<noteq> 0"
  proof
    assume "x = 0"
    then have "(2::rat) powi e \<le> 0" using assms(1) by simp
    then show False using powi2_pos [of e] by linarith
  qed
  have "\<bar>x\<bar> / ?q < 2 powi (e + 1) / ?q"
    using assms(2) by (simp add: divide_strict_right_mono)
  also have "\<dots> = 2 ^ 53"
    by (simp add: powi2_diff [symmetric])
  finally have xq: "\<bar>x / ?q\<bar> < 2 ^ 53" by simp
  have "of_int m - 1 / 2 \<le> x / ?q" and "x / ?q \<le> of_int m + 1 / 2"
    using round_half_even_bounds [of "x / ?q"] unfolding assms(5) by blast+
  then have "\<bar>of_int m :: rat\<bar> \<le> \<bar>x / ?q\<bar> + 1 / 2"
    by linarith
  then have "\<bar>of_int m :: rat\<bar> < 2 ^ 53 + 1" using xq by linarith
  then have "\<bar>m\<bar> < 2 ^ 53 + 1"
    by (metis (mono_tags, opaque_lifting) of_int_abs of_int_less_iff of_int_numeral of_int_power
        of_int_add of_int_1)
  then have "\<bar>m\<bar> \<le> 2 ^ 53" by simp
  then have "\<bar>of_int m :: rat\<bar> \<le> 2 ^ 53"
    by (metis of_int_abs of_int_le_iff of_int_numeral of_int_power)
  then have "\<bar>of_int m * ?q\<bar> \<le> 2 ^ 53 * ?q"
    by (simp add: abs_mult mult_right_mono)
  also have "\<dots> = 2 powi (e + 1)"
    using powi2_add [of 53 "e - 52"] by (simp add: add.commute)
  also have "\<dots> < 2 powi 1024"
    using assms(4) by (intro powi2_strict_mono) simp
  finally have "\<not> 2 powi 1024 \<le> \<bar>of_int m * ?q\<bar>" by simp
  then show ?thesis
    using x0 assms(5) by (simp add: fl_def rnd_def Let_def q)
qed

lemma fl_cert:
  assumes "2 powi e \<le> \<bar>x\<bar>" and "\<bar>x\<bar> < 2 powi (e + 1)" and "- 1022 \<le> e" and "e \<le> 1022"
    and "of_int m - 1 / 2 < x / 2 powi (e - 52)" and "x / 2 powi (e - 52) < of_int m + 1 / 2"
  shows "fl x = Fin (of_int m * 2 powi (e - 52))"
  using fl_normal [OF assms(1-4) round_half_even_unique [OF assms(5,6)]] .

lemma fl_cert_tie:
  assumes "2 powi e \<le> \<bar>x\<bar>" and "\<bar>x\<bar> < 2 powi (e + 1)" and "- 1022 \<le> e" and "e \<le> 1022"
    and "x / 2 powi (e - 52) = of_int m + 1 / 2"
  shows "fl x = Fin (of_int (if even m then m else m + 1) * 2 powi (e - 52))"
  using fl_normal [OF assms(1-4)] round_half_even_tie [of m] assms(5) by simp

lemma fl_0 [simp]: "fl 0 = Fin 0"
  by (simp add: fl_def)

lemma floor_rat_numeral [simp]: "\<lfloor>numeral a / numeral b :: rat\<rfloor> = numeral a div numeral b"
  using floor_divide_of_int_eq [of "numeral a" "numeral b", where ?'a = rat] by simp

lemma floor_rat_neg_numeral [simp]:
  "\<lfloor>- (numeral a / numeral b) :: rat\<rfloor> = - numeral a div numeral b"
  using floor_divide_of_int_eq [of "- numeral a" "numeral b", where ?'a = rat] by simp

lemmas calc_defs = calculateSustainabilityMetrics_def carbonFootprint_local_def
  waterEfficiency_local_def energyEfficiency_local_def sustainabilityScore_local_def
  lit_def js_sub_def Let_def

subsection \<open>Rounding is symmetric, monotone, and exact on binary64 values\<close>


lemma round_half_even_half_int:
  assumes "x = of_int k + 1 / 2"
  shows "round_half_even (- x) = - round_half_even x"
proof -
  have "- x = of_int (- k - 1) + 1 / 2" using assms by simp
  then have "round_half_even (- x) = (if even (- k - 1) then - k - 1 else - k - 1 + 1)"
    using round_half_even_tie [of "- k - 1"] by simp
  moreover have "round_half_even x = (if even k then k else k + 1)"
    using round_half_even_tie [of k] assms by simp
  ultimately show ?thesis by auto
qed

lemma round_half_even_neg: "round_half_even (- x) = - round_half_even x"
proof -
  let ?m = "round_half_even x"
  consider "of_int ?m - 1 / 2 < x" "x < of_int ?m + 1 / 2"
    | "x = of_int ?m + 1 / 2" | "x = of_int ?m - 1 / 2"
    using round_half_even_bounds [of x] by linarith
  then show ?thesis
  proof cases
    case 1
    then have "of_int (- ?m) - 1 / 2 < - x" and "- x < of_int (- ?m) + 1 / 2" by simp_all
    then show ?thesis by (rule round_half_even_unique)
  next
    case 2
    then show ?thesis by (rule round_half_even_half_int)
  next
    case 3
    then have "x = of_int (?m - 1) + 1 / 2" by simp
    then show ?thesis by (rule round_half_even_half_int)
  qed
qed

lemma quantum_neg: "quantum (- x) = quantum x"
  by (simp add: quantum_def expo_def)

lemma rnd_neg: "rnd (- x) = - rnd x"
  by (simp add: rnd_def quantum_neg round_half_even_neg)

lemma rnd_0 [simp]: "rnd 0 = 0"
  using round_half_even_of_int [of 0] by (simp add: rnd_def)

lemma rnd_nonneg: "0 \<le> x \<Longrightarrow> 0 \<le> rnd x"
proof -
  assume "0 \<le> x"
  then have "0 \<le> x / quantum x" using quantum_pos [of x] by simp
  then have "round_half_even 0 \<le> round_half_even (x / quantum x)"
    by (rule round_half_even_mono)
  then have "0 \<le> round_half_even (x / quantum x)"
    using round_half_even_of_int [of 0] by simp
  then show ?thesis using quantum_pos [of x] by (simp add: rnd_def)
qed

lemma rnd_nonpos: "x \<le> 0 \<Longrightarrow> rnd x \<le> 0"
  using rnd_nonneg [of "- x"] by (simp add: rnd_neg)

lemma quantum_expo: "quantum x = 2 powi (expo x - 52)"
  by (simp add: quantum_def)

lemma rnd_upper:
  assumes "0 < x"
  shows "rnd x \<le> 2 powi (expo x + 1)"
proof -
  let ?q = "quantum x"
  have "x < 2 powi (ilog2 x + 1)" using ilog2_bounds(2) [OF assms] .
  also have "\<dots> \<le> 2 powi (expo x + 1)"
    using assms by (intro powi2_mono) (simp add: expo_def)
  finally have "x / ?q \<le> 2 powi (expo x + 1) / ?q"
    using quantum_pos [of x] by (simp add: divide_right_mono)
  also have "\<dots> = of_int (2 ^ 53)"
    by (simp add: quantum_expo powi2_diff [symmetric])
  finally have "round_half_even (x / ?q) \<le> round_half_even (of_int (2 ^ 53))"
    by (rule round_half_even_mono)
  then have "round_half_even (x / ?q) \<le> 2 ^ 53"
    by (simp only: round_half_even_of_int)
  then have "(of_int (round_half_even (x / ?q)) :: rat) \<le> of_int (2 ^ 53)"
    by (simp only: of_int_le_iff)
  then have "rnd x \<le> of_int (2 ^ 53) * ?q"
    unfolding rnd_def using quantum_pos [of x] by (simp add: mult_right_mono)
  also have "\<dots> = 2 powi (expo x + 1)"
    using powi2_add [of 53 "expo x - 52"] by (simp add: quantum_expo add.commute)
  finally show ?thesis .
qed

lemma rnd_lower:
  assumes "0 < x" and "- 1022 \<le> ilog2 x"
  shows "2 powi expo x \<le> rnd x"
proof -
  let ?q = "quantum x"
  have e: "expo x = ilog2 x" using assms by (simp add: expo_def)
  have "2 powi expo x \<le> x" using ilog2_bounds(1) [OF assms(1)] by (simp add: e)
  then have "2 powi expo x / ?q \<le> x / ?q"
    using quantum_pos [of x] by (simp add: divide_right_mono)
  moreover have "2 powi expo x / ?q = of_int (2 ^ 52)"
    by (simp add: quantum_expo powi2_diff [symmetric])
  ultimately have "round_half_even (of_int (2 ^ 52)) \<le> round_half_even (x / ?q)"
    using round_half_even_mono [of "of_int (2 ^ 52)" "x / ?q"] by simp
  then have "2 ^ 52 \<le> round_half_even (x / ?q)"
    by (simp only: round_half_even_of_int)
  then have "(of_int (2 ^ 52) :: rat) \<le> of_int (round_half_even (x / ?q))"
    by (simp only: of_int_le_iff)
  then have "of_int (2 ^ 52) * ?q \<le> rnd x"
    unfolding rnd_def using quantum_pos [of x] by (simp add: mult_right_mono)
  moreover have "of_int (2 ^ 52) * ?q = 2 powi expo x"
    using powi2_add [of 52 "expo x - 52"] by (simp add: quantum_expo)
  ultimately show ?thesis by simp
qed

lemma rnd_mono_pos:
  assumes "0 < x" and "x \<le> y"
  shows "rnd x \<le> rnd y"
proof -
  have y: "0 < y" using assms by linarith
  have le: "expo x \<le> expo y"
    using ilog2_mono [OF assms] assms y by (simp add: expo_def)
  show ?thesis
  proof (cases "expo x = expo y")
    case True
    then have q: "quantum y = quantum x" by (simp add: quantum_expo)
    have "x / quantum x \<le> y / quantum x"
      using assms(2) quantum_pos [of x] by (simp add: divide_right_mono)
    then have "round_half_even (x / quantum x) \<le> round_half_even (y / quantum x)"
      by (rule round_half_even_mono)
    then have "(of_int (round_half_even (x / quantum x)) :: rat)
        \<le> of_int (round_half_even (y / quantum x))"
      by (simp only: of_int_le_iff)
    then show ?thesis
      unfolding rnd_def q using quantum_pos [of x] by (simp add: mult_right_mono)
  next
    case False
    then have lt: "expo x + 1 \<le> expo y" using le by simp
    then have "- 1022 < expo y" by (simp add: expo_def)
    then have "- 1022 \<le> ilog2 y" using y by (simp add: expo_def)
    then have "2 powi expo y \<le> rnd y" using rnd_lower [OF y] by simp
    moreover have "rnd x \<le> 2 powi (expo x + 1)" using rnd_upper [OF assms(1)] .
    moreover have "(2::rat) powi (expo x + 1) \<le> 2 powi expo y" using lt by (rule powi2_mono)
    ultimately show ?thesis by linarith
  qed
qed

lemma rnd_mono:
  assumes "x \<le> y"
  shows "rnd x \<le> rnd y"
proof -
  consider "0 < x" | "x \<le> 0" "0 \<le> y" | "y < 0" by linarith
  then show ?thesis
  proof cases
    case 1
    then show ?thesis using assms by (rule rnd_mono_pos)
  next
    case 2
    then show ?thesis using rnd_nonpos [of x] rnd_nonneg [of y] by linarith
  next
    case 3
    then have "0 < - y" and "- y \<le> - x" using assms by simp_all
    then have "rnd (- y) \<le> rnd (- x)" by (rule rnd_mono_pos)
    then show ?thesis by (simp add: rnd_neg)
  qed
qed

lemma rnd_exact:
  assumes "\<bar>m\<bar> < 2 ^ 53" and "- 1074 \<le> k"
  shows "rnd (of_int m * 2 powi k) = of_int m * 2 powi k"
proof (cases "m = 0")
  case True
  then show ?thesis by simp
next
  case False
  let ?x = "of_int m * (2::rat) powi k"
  have x0: "0 < \<bar>?x\<bar>" using False by simp
  have "\<bar>of_int m :: rat\<bar> < of_int (2 ^ 53)"
    using assms(1) by (metis of_int_abs of_int_less_iff)
  then have "\<bar>?x\<bar> < of_int (2 ^ 53) * 2 powi k"
    by (simp add: abs_mult)
  also have "\<dots> = 2 powi (53 + k)" using powi2_add [of 53 k] by simp
  finally have "(2::rat) powi ilog2 \<bar>?x\<bar> < 2 powi (53 + k)"
    using ilog2_bounds(1) [OF x0] by linarith
  then have "ilog2 \<bar>?x\<bar> < 53 + k"
    using powi2_mono [of "53 + k" "ilog2 \<bar>?x\<bar>"] by (cases "ilog2 \<bar>?x\<bar> < 53 + k") auto
  then have d: "0 \<le> k - (expo ?x - 52)" using assms(2) by (simp add: expo_def)
  have "?x / quantum ?x = of_int m * (2 powi k / 2 powi (expo ?x - 52))"
    by (simp add: quantum_expo)
  also have "\<dots> = of_int m * 2 powi (k - (expo ?x - 52))"
    by (simp only: powi2_diff)
  also have "\<dots> = of_int m * 2 ^ nat (k - (expo ?x - 52))"
    using d by (simp add: power_int_nonneg_exp)
  also have "\<dots> = of_int (m * 2 ^ nat (k - (expo ?x - 52)))" by simp
  finally have "of_int (round_half_even (?x / quantum ?x)) = ?x / quantum ?x"
    by (simp only: round_half_even_of_int)
  then show ?thesis using quantum_pos [of ?x] by (simp add: rnd_def)
qed

lemma rnd_of_int: "\<bar>m\<bar> < 2 ^ 53 \<Longrightarrow> rnd (of_int m) = of_int m"
  using rnd_exact [of m 0] by simp

lemma rnd_half_int: "\<bar>m\<bar> < 2 ^ 53 \<Longrightarrow> rnd (of_int m / 2) = of_int m / 2"
  using rnd_exact [of m "- 1"] by (simp add: power_int_minus field_simps)

lemma fl_rnd:
  "fl x = (if 2 powi 1024 \<le> rnd x then PInf
           else if rnd x \<le> - (2 powi 1024) then NInf else Fin (rnd x))"
proof -
  consider "x = 0" | "0 < x" | "x < 0" by linarith
  then show ?thesis
  proof cases
    case 1
    then show ?thesis by simp
  next
    case 2
    then have "0 \<le> rnd x" using rnd_nonneg [of x] by simp
    then show ?thesis using 2 by (auto simp: fl_def Let_def abs_if)
  next
    case 3
    then have "rnd x \<le> 0" using rnd_nonpos [of x] by simp
    then show ?thesis using 3 by (auto simp: fl_def Let_def abs_if)
  qed
qed

lemma fl_not_NaN [simp]: "fl x \<noteq> NaN"
  by (simp add: fl_rnd)

lemma fl_mono: "x \<le> y \<Longrightarrow> js_le (fl x) (fl y)"
  using rnd_mono [of x y] by (auto simp: fl_rnd)

lemma fl_exact: "rnd x = x \<Longrightarrow> \<bar>x\<bar> < 2 powi 1024 \<Longrightarrow> fl x = Fin x"
  by (auto simp: fl_rnd)

lemma fl_of_int: "\<bar>m\<bar> < 2 ^ 53 \<Longrightarrow> fl (of_int m) = Fin (of_int m)"
proof -
  assume m: "\<bar>m\<bar> < 2 ^ 53"
  then have "\<bar>of_int m :: rat\<bar> < of_int (2 ^ 53)" by (metis of_int_abs of_int_less_iff)
  also have "\<dots> < 2 powi 1024" by simp
  finally show ?thesis using rnd_of_int [OF m] by (intro fl_exact)
qed

lemma fl_half_int: "\<bar>m\<bar> < 2 ^ 53 \<Longrightarrow> fl (of_int m / 2) = Fin (of_int m / 2)"
proof -
  assume m: "\<bar>m\<bar> < 2 ^ 53"
  then have "\<bar>of_int m :: rat\<bar> < of_int (2 ^ 53)" by (metis of_int_abs of_int_less_iff)
  then have "\<bar>of_int m / 2 :: rat\<bar> < of_int (2 ^ 53)" by simp
  also have "\<dots> < 2 powi 1024" by simp
  finally show ?thesis using rnd_half_int [OF m] by (intro fl_exact)
qed

section \<open>The store\<close>

subsection \<open>\<open>Map\<close> and \<open>sort\<close>\<close>


lemma Map_get_Map_set: "Map_get (Map_set m k v) k' = (if k' = k then Some v else Map_get m k')"
  by (induction m) (auto simp: Map_get_def)

lemma Map_set_fresh: "k \<notin> fst ` set m \<Longrightarrow> Map_set m k v = m @ [(k, v)]"
  by (induction m) auto

lemma Map_get_None_iff: "Map_get m k = None \<longleftrightarrow> k \<notin> fst ` set m"
  by (simp add: Map_get_def map_of_eq_None_iff)

lemma Map_get_filter:
  "Map_get (filter (\<lambda>e. fst e \<noteq> k) m) k' = (if k' = k then None else Map_get m k')"
  by (induction m) (auto simp: Map_get_def)

lemma filter_absent: "k \<notin> fst ` set m \<Longrightarrow> filter (\<lambda>e. fst e \<noteq> k) m = m"
  by (induction m) auto

lemma Map_get_Some_iff:
  "distinct (map fst m) \<Longrightarrow> Map_get m k = Some v \<longleftrightarrow> (k, v) \<in> set m"
  by (simp add: Map_get_def)

lemma set_sort_insert: "set (sort_insert cmp x ys) = insert x (set ys)"
  by (induction ys) auto

lemma length_sort_insert: "length (sort_insert cmp x ys) = Suc (length ys)"
  by (induction ys) auto

lemma set_Array_sort: "set (Array_sort cmp xs) = set xs"
  by (induction xs) (auto simp: Array_sort_def set_sort_insert)

lemma length_Array_sort: "length (Array_sort cmp xs) = length xs"
  by (induction xs) (auto simp: Array_sort_def length_sort_insert)

lemma distinct_Array_sort: "distinct (Array_sort cmp xs) = distinct xs"
  using set_Array_sort [of cmp xs] length_Array_sort [of cmp xs]
  by (metis card_distinct distinct_card)

lemma sorted_sort_insert:
  "sorted_wrt (\<lambda>a b. createdAt b \<le> createdAt a) ys \<Longrightarrow>
   sorted_wrt (\<lambda>a b. createdAt b \<le> createdAt a) (sort_insert compare_createdAt x ys)"
  by (induction ys) (auto simp: compare_createdAt_def set_sort_insert)

lemma sorted_Array_sort:
  "sorted_wrt (\<lambda>a b. createdAt b \<le> createdAt a) (Array_sort compare_createdAt xs)"
proof (induction xs)
  case Nil
  show ?case by (simp add: Array_sort_def)
next
  case (Cons x xs)
  then show ?case
    using sorted_sort_insert [of "Array_sort compare_createdAt xs" x]
    by (simp add: Array_sort_def)
qed

subsection \<open>The invariant\<close>

lemma forEach_default_inv:
  "store_inv st \<Longrightarrow> \<forall>f \<in> set fs. \<forall>i. Scenario.id (f i) = i \<Longrightarrow>
   store_inv (forEach_default fs st)"
proof (induction fs arbitrary: st)
  case Nil
  then show ?case by simp
next
  case (Cons f fs)
  let ?st' = "st\<lparr>currentId := currentId st + 1,
                 scenarios := Map_set (scenarios st) (currentId st) (f (currentId st))\<rparr>"
  have fresh: "currentId st \<notin> fst ` set (scenarios st)"
    using Cons.prems(1) by (auto simp: store_inv_def list_all_iff)
  have "store_inv ?st'"
    using Cons.prems fresh
    by (auto simp: store_inv_def list_all_iff Map_set_fresh)
  moreover have "\<forall>g \<in> set fs. \<forall>i. Scenario.id (g i) = i" using Cons.prems(2) by simp
  ultimately have "store_inv (forEach_default fs ?st')"
    by (rule Cons.IH)
  then show ?case by (simp add: Let_def)
qed

lemma MemStorage_new_inv: "store_inv (MemStorage_new t1 t2 t3)"
proof -
  have "store_inv \<lparr>scenarios = [], currentId = 1\<rparr>" by (simp add: store_inv_def)
  moreover have "\<forall>f \<in> set (defaultScenarios t1 t2 t3). \<forall>i. Scenario.id (f i) = i"
    by (simp add: defaultScenarios_def)
  ultimately show ?thesis
    unfolding MemStorage_new_def initializeDefaultScenarios_def
    using forEach_default_inv by force
qed

lemma createScenario_inv: "store_inv st \<Longrightarrow> store_inv (snd (createScenario st d now))"
proof -
  assume inv: "store_inv st"
  have fresh: "currentId st \<notin> fst ` set (scenarios st)"
    using inv by (auto simp: store_inv_def list_all_iff)
  show ?thesis
    using inv fresh
    by (auto simp: createScenario_def Let_def store_inv_def list_all_iff Map_set_fresh
          ScenarioData.defs Scenario.defs)
qed

lemma deleteScenario_inv: "store_inv st \<Longrightarrow> store_inv (snd (deleteScenario st i))"
  by (auto simp: deleteScenario_def Map_delete_def store_inv_def list_all_iff distinct_map_filter)

lemma reachable_inv: "reachable st \<Longrightarrow> store_inv st"
  by (induction rule: reachable.induct)
     (simp_all add: MemStorage_new_inv createScenario_inv deleteScenario_inv)

subsection \<open>The methods\<close>


lemma createScenario_currentId:
  "currentId (snd (createScenario st d now)) = currentId st + 1"
  by (simp add: createScenario_def Let_def)

lemma createScenario_id: "Scenario.id (fst (createScenario st d now)) = currentId st"
  by (simp add: createScenario_def Let_def ScenarioData.defs Scenario.defs)

lemma deleteScenario_currentId: "currentId (snd (deleteScenario st i)) = currentId st"
  by (simp add: deleteScenario_def Map_delete_def)

lemma created_ids_upto:
  "created_ids ops st = [currentId st .. currentId st + int (length (filter is_Create ops)) - 1]"
proof (induction ops arbitrary: st)
  case Nil
  show ?case by simp
next
  case (Cons op ops)
  show ?case
  proof (cases op)
    case (Create d now)
    obtain s st' where c: "createScenario st d now = (s, st')" by (cases "createScenario st d now")
    have s: "Scenario.id s = currentId st" using createScenario_id [of st d now] c by simp
    have n: "currentId st' = currentId st + 1" using createScenario_currentId [of st d now] c by simp
    have "created_ids (op # ops) st = currentId st # created_ids ops st'"
      using Create c s by simp
    also have "\<dots> = currentId st #
        [currentId st + 1 .. currentId st + 1 + int (length (filter is_Create ops)) - 1]"
      using Cons.IH [of st'] n by simp
    also have "\<dots> = [currentId st .. currentId st + int (length (filter is_Create (op # ops))) - 1]"
      using Create by (simp add: upto_rec1 [of "currentId st"])
    finally show ?thesis .
  next
    case (Delete i)
    then show ?thesis
      using Cons.IH [of "snd (deleteScenario st i)"] by (simp add: deleteScenario_currentId)
  qed
qed

lemma MemStorage_new_eval:
  "map fst (scenarios (MemStorage_new t1 t2 t3)) = [1, 2, 3]"
  "currentId (MemStorage_new t1 t2 t3) = 4"
  by (simp_all add: MemStorage_new_def initializeDefaultScenarios_def defaultScenarios_def Let_def)

text \<open>
  Claim C5. Ids come from one counter that the seed data shares: the constructor gives
  the three seeds the ids 1, 2, 3, and in any sequence of create and delete calls on the
  new store every create returns an id (so N creates yield N ids), and the seeds' ids
  followed by the ids of the creates, in the order they were assigned, are strictly
  increasing. Each id is therefore greater than every id assigned before it, whether or
  not that scenario was deleted in between, and none is used twice.
\<close>

theorem ids_strictly_increasing:
  "map fst (scenarios (MemStorage_new t1 t2 t3)) = [1, 2, 3] \<and>
   length (created_ids ops (MemStorage_new t1 t2 t3)) = length (filter is_Create ops) \<and>
   sorted_wrt (<) ([1, 2, 3] @ created_ids ops (MemStorage_new t1 t2 t3))"
proof -
  let ?n = "int (length (filter is_Create ops))"
  have ids: "created_ids ops (MemStorage_new t1 t2 t3) = [4 .. 3 + ?n]"
    using created_ids_upto [of ops "MemStorage_new t1 t2 t3"]
    by (simp add: MemStorage_new_eval algebra_simps)
  have "[1, 2, 3] @ [4 .. 3 + ?n] = [1 .. 3 + ?n]"
    by (simp add: upto_rec1 [of 1] upto_rec1 [of 2] upto_rec1 [of 3])
  moreover have "sorted_wrt (<) [1 .. 3 + ?n]"
    by (simp add: strict_sorted_iff)
  ultimately have "sorted_wrt (<) ([1, 2, 3] @ created_ids ops (MemStorage_new t1 t2 t3))"
    using ids by simp
  moreover have "length (created_ids ops (MemStorage_new t1 t2 t3)) = length (filter is_Create ops)"
    using ids by simp
  ultimately show ?thesis by (simp add: MemStorage_new_eval)
qed

lemma inv_values:
  assumes "store_inv st"
  shows "distinct (Map_values (scenarios st))"
    and "set (Map_values (scenarios st)) = {s. Map_get (scenarios st) (Scenario.id s) = Some s}"
proof -
  have d: "distinct (map fst (scenarios st))"
    and k: "\<And>e. e \<in> set (scenarios st) \<Longrightarrow> Scenario.id (snd e) = fst e"
    using assms by (auto simp: store_inv_def list_all_iff)
  have "inj_on snd (set (scenarios st))"
    by (rule inj_onI) (metis k prod.expand)
  moreover have "distinct (scenarios st)" using d by (simp add: distinct_map)
  ultimately show "distinct (Map_values (scenarios st))"
    by (simp add: Map_values_def distinct_map)
  show "set (Map_values (scenarios st)) = {s. Map_get (scenarios st) (Scenario.id s) = Some s}"
  proof (intro set_eqI iffI)
    fix s assume "s \<in> set (Map_values (scenarios st))"
    then obtain e where e: "e \<in> set (scenarios st)" "snd e = s" by (auto simp: Map_values_def)
    then have "(Scenario.id s, s) \<in> set (scenarios st)" using k [OF e(1)] by (metis prod.collapse)
    then show "s \<in> {s. Map_get (scenarios st) (Scenario.id s) = Some s}"
      using d by (simp add: Map_get_Some_iff)
  next
    fix s assume "s \<in> {s. Map_get (scenarios st) (Scenario.id s) = Some s}"
    then have "(Scenario.id s, s) \<in> set (scenarios st)" using d by (simp add: Map_get_Some_iff)
    then show "s \<in> set (Map_values (scenarios st))" by (force simp: Map_values_def)
  qed
qed

text \<open>
  Claim C7. In every reachable store, \<open>getAllScenarios\<close> leaves the store as it is and
  returns exactly the stored scenarios, each once (a scenario is in the result if and
  only if \<open>getScenario\<close> of its id finds it), sorted by \<open>createdAt\<close> descending.
\<close>

theorem getAllScenarios_sorted:
  assumes "reachable st"
  shows "snd (getAllScenarios st) = st \<and>
         sorted_wrt (\<lambda>a b. createdAt b \<le> createdAt a) (fst (getAllScenarios st)) \<and>
         distinct (fst (getAllScenarios st)) \<and>
         set (fst (getAllScenarios st)) = {s. fst (getScenario st (Scenario.id s)) = Some s}"
proof -
  have inv: "store_inv st" using assms by (rule reachable_inv)
  show ?thesis
    using inv_values [OF inv]
    by (simp add: getAllScenarios_def getScenario_def sorted_Array_sort distinct_Array_sort
          set_Array_sort)
qed

text \<open>
  Claim C8. In every reachable store: if \<open>getScenario i\<close> finds a record, then
  \<open>deleteScenario i\<close> returns true, afterwards \<open>getScenario i\<close> finds nothing, every
  other id leads to what it led to before, \<open>getAllScenarios\<close> returns the same records
  without the deleted one, and the counter is unchanged; if \<open>getScenario i\<close> finds
  nothing, \<open>deleteScenario i\<close> returns false and the store is exactly the same. In both
  cases a second \<open>deleteScenario i\<close> returns false and changes nothing.
\<close>

theorem deleteScenario_spec:
  assumes "reachable st"
  shows "(\<forall>r. fst (getScenario st i) = Some r \<longrightarrow>
            fst (deleteScenario st i) = True \<and>
            fst (getScenario (snd (deleteScenario st i)) i) = None \<and>
            (\<forall>j. j \<noteq> i \<longrightarrow>
               fst (getScenario (snd (deleteScenario st i)) j) = fst (getScenario st j)) \<and>
            set (fst (getAllScenarios (snd (deleteScenario st i)))) =
              set (fst (getAllScenarios st)) - {r} \<and>
            currentId (snd (deleteScenario st i)) = currentId st) \<and>
         (fst (getScenario st i) = None \<longrightarrow> deleteScenario st i = (False, st)) \<and>
         deleteScenario (snd (deleteScenario st i)) i = (False, snd (deleteScenario st i))"
proof (intro conjI allI impI)
  let ?st' = "snd (deleteScenario st i)"
  have inv: "store_inv st" using assms by (rule reachable_inv)
  have inv': "store_inv ?st'" using inv by (rule deleteScenario_inv)
  have get': "\<And>j. fst (getScenario ?st' j) = (if j = i then None else fst (getScenario st j))"
    by (simp add: getScenario_def deleteScenario_def Map_delete_def Map_get_filter)
  show "deleteScenario ?st' i = (False, ?st')"
    using get' [of i]
    by (simp add: deleteScenario_def [of ?st'] Map_delete_def Map_has_def getScenario_def
          Map_get_None_iff filter_absent)
  {
    assume "fst (getScenario st i) = None"
    then show "deleteScenario st i = (False, st)"
      by (simp add: deleteScenario_def Map_delete_def Map_has_def getScenario_def
            Map_get_None_iff filter_absent)
  }
  fix r assume r: "fst (getScenario st i) = Some r"
  show "fst (deleteScenario st i) = True"
    using r by (simp add: deleteScenario_def Map_delete_def Map_has_def getScenario_def)
  show "fst (getScenario ?st' i) = None" by (simp add: get')
  show "currentId ?st' = currentId st" by (rule deleteScenario_currentId)
  {
    fix j assume "j \<noteq> i"
    then show "fst (getScenario ?st' j) = fst (getScenario st j)" by (simp add: get')
  }
  have ri: "Scenario.id r = i"
    using r inv by (auto simp: getScenario_def store_inv_def list_all_iff Map_get_Some_iff)
  have "set (fst (getAllScenarios ?st')) = {s. fst (getScenario ?st' (Scenario.id s)) = Some s}"
    using inv_values(2) [OF inv'] by (simp add: getAllScenarios_def getScenario_def set_Array_sort)
  also have "\<dots> = {s. fst (getScenario st (Scenario.id s)) = Some s} - {r}"
    using r ri by (auto simp: get')
  also have "{s. fst (getScenario st (Scenario.id s)) = Some s} = set (fst (getAllScenarios st))"
    using inv_values(2) [OF inv] by (simp add: getAllScenarios_def getScenario_def set_Array_sort)
  finally show "set (fst (getAllScenarios ?st')) = set (fst (getAllScenarios st)) - {r}" .
qed

text \<open>
  Claim C10. In every reachable store \<open>createScenario\<close> touches no stored scenario: the
  returned record carries the counter's value as its id, no record had that id before,
  afterwards that id leads to the returned record, every other id leads to what it led
  to before (so every record present before is still there, unchanged), and the
  stored values are the old ones followed by the new record.
\<close>

theorem createScenario_frame:
  assumes "reachable st" and "createScenario st insertScenario now = (s, st')"
  shows "Scenario.id s = currentId st \<and>
         fst (getScenario st (Scenario.id s)) = None \<and>
         fst (getScenario st' (Scenario.id s)) = Some s \<and>
         (\<forall>j. j \<noteq> Scenario.id s \<longrightarrow> fst (getScenario st' j) = fst (getScenario st j)) \<and>
         (\<forall>j r. fst (getScenario st j) = Some r \<longrightarrow> fst (getScenario st' j) = Some r) \<and>
         Map_values (scenarios st') = Map_values (scenarios st) @ [s]"
proof -
  have inv: "store_inv st" using assms(1) by (rule reachable_inv)
  have fresh: "currentId st \<notin> fst ` set (scenarios st)"
    using inv by (auto simp: store_inv_def list_all_iff)
  have s: "Scenario.id s = currentId st"
    using createScenario_id [of st insertScenario now] assms(2) by simp
  have st': "scenarios st' = Map_set (scenarios st) (currentId st) s"
    using assms(2) by (auto simp: createScenario_def Let_def)
  have none: "fst (getScenario st (currentId st)) = None"
    using fresh by (simp add: getScenario_def Map_get_None_iff)
  have get': "\<And>j. fst (getScenario st' j) = (if j = currentId st then Some s else fst (getScenario st j))"
    by (simp add: getScenario_def st' Map_get_Map_set)
  have "\<forall>j r. fst (getScenario st j) = Some r \<longrightarrow> fst (getScenario st' j) = Some r"
    using none by (auto simp: get')
  moreover have "Map_values (scenarios st') = Map_values (scenarios st) @ [s]"
    using fresh by (simp add: st' Map_set_fresh Map_values_def)
  ultimately show ?thesis using s none by (simp add: get')
qed

section \<open>The ids of the routes\<close>


lemma is_digit_10_iff: "is_digit 10 c \<longleftrightarrow> 48 \<le> c \<and> c \<le> 57"
  by (auto simp: is_digit_def digit_value_def)

lemma is_digit_10_plain:
  assumes "is_digit 10 c"
  shows "\<not> StrWhiteSpaceChar c" and "c \<noteq> of_char (CHR ''-'')" and "c \<noteq> of_char (CHR ''+'')"
    and "c \<noteq> of_char (CHR ''x'')" and "c \<noteq> of_char (CHR ''X'')"
  using assms by (auto simp: is_digit_10_iff StrWhiteSpaceChar_def)

lemma parseInt_valid_positive_integer:
  assumes "valid_positive_integer s"
  shows "parseInt s = fl (of_int (int (digits_value 10 s)))"
proof -
  obtain c cs where s: "s = c # cs" using assms by (cases s) (auto simp: valid_positive_integer_def)
  have all: "\<forall>x \<in> set s. is_digit 10 x"
    using assms by (simp add: valid_positive_integer_def list_all_iff)
  have c: "is_digit 10 c" using all s by simp
  have drop: "dropWhile StrWhiteSpaceChar s = s"
    using is_digit_10_plain(1) [OF c] by (simp add: s)
  have nohex: "take 2 s \<noteq> str ''0x''" "take 2 s \<noteq> str ''0X''"
  proof -
    show "take 2 s \<noteq> str ''0x''"
    proof (cases cs)
      case Nil
      then show ?thesis by (simp add: s str_def)
    next
      case (Cons c' cs')
      then have "is_digit 10 c'" using all s by simp
      then show ?thesis using is_digit_10_plain(4) [of c'] Cons by (auto simp: s str_def)
    qed
    show "take 2 s \<noteq> str ''0X''"
    proof (cases cs)
      case Nil
      then show ?thesis by (simp add: s str_def)
    next
      case (Cons c' cs')
      then have "is_digit 10 c'" using all s by simp
      then show ?thesis using is_digit_10_plain(5) [of c'] Cons by (auto simp: s str_def)
    qed
  qed
  have tw: "takeWhile (is_digit 10) s = s"
    using all by (simp add: takeWhile_eq_all_conv)
  have hd: "hd s \<noteq> of_char (CHR ''-'')" "hd s \<noteq> of_char (CHR ''+'')"
    using is_digit_10_plain(2,3) [OF c] by (simp_all add: s)
  have ne: "s \<noteq> []" by (simp add: s)
  show ?thesis
    unfolding parseInt_def drop Let_def using hd nohex ne by (simp add: tw)
qed

lemma fl_of_int_le:
  assumes "\<bar>m\<bar> \<le> 2 ^ 53"
  shows "fl (of_int m) = Fin (of_int m)"
proof (cases "\<bar>m\<bar> < 2 ^ 53")
  case True
  then show ?thesis by (rule fl_of_int)
next
  case False
  then have m: "m = 2 ^ 53 \<or> m = - (2 ^ 53)" using assms by linarith
  have p: "rnd (2 powi 53) = 2 powi 53" using rnd_exact [of 1 53] by simp
  then have n: "rnd (- (2 powi 53)) = - (2 powi 53)" by (simp only: rnd_neg)
  show ?thesis
  proof (rule fl_exact)
    show "rnd (of_int m) = of_int m" using m p n by auto
    show "\<bar>of_int m :: rat\<bar> < 2 powi 1024" using m by auto
  qed
qed

lemma number_key_of_int [simp]: "number_key (Fin (of_int k)) = Some k"
  by (simp add: number_key_def)

lemma absent_number:
  assumes "fst (getScenario_number st x) = None"
  shows "getScenario_number st x = (None, st)" and "deleteScenario_number st x = (False, st)"
proof -
  show "getScenario_number st x = (None, st)"
    using assms by (auto simp: getScenario_number_def getScenario_def split: option.splits)
  show "deleteScenario_number st x = (False, st)"
  proof (cases "number_key x")
    case None
    then show ?thesis by (simp add: deleteScenario_number_def)
  next
    case (Some i)
    then have "Map_get (scenarios st) i = None"
      using assms by (simp add: getScenario_number_def getScenario_def)
    then show ?thesis
      using Some
      by (simp add: deleteScenario_number_def deleteScenario_def Map_delete_def Map_has_def
          Map_get_None_iff filter_absent)
  qed
qed

text \<open>
  Claim C9, as amended. The two routes that take an id answer 400, with the store left
  as it is and whatever it holds, when \<open>parseInt\<close> finds no number at the start of the id,
  and only then; when \<open>parseInt\<close> gives a number under which the store holds no record,
  they answer 404 and leave the store as it is. An id that is a valid positive integer
  is never answered with 400: it is parsed to the binary64 value nearest to its value,
  which up to \<open>2 ^ 53\<close> is the value itself, so that with no record of that id the answer
  is 404.
\<close>

theorem id_routes_status:
  "(parseInt id_param = NaN \<longrightarrow>
      (get_scenario_by_id st id_param :: 'e response \<times> MemStorage) =
        (\<lparr>status = 400, body = Message ''Invalid scenario ID''\<rparr>, st) \<and>
      (delete_scenario st id_param :: 'e response \<times> MemStorage) =
        (\<lparr>status = 400, body = Message ''Invalid scenario ID''\<rparr>, st)) \<and>
   (parseInt id_param \<noteq> NaN \<longrightarrow>
      status (fst (get_scenario_by_id st id_param :: 'e response \<times> MemStorage)) \<noteq> 400 \<and>
      status (fst (delete_scenario st id_param :: 'e response \<times> MemStorage)) \<noteq> 400) \<and>
   (parseInt id_param \<noteq> NaN \<and> fst (getScenario_number st (parseInt id_param)) = None \<longrightarrow>
      (get_scenario_by_id st id_param :: 'e response \<times> MemStorage) =
        (\<lparr>status = 404, body = Message ''Scenario not found''\<rparr>, st) \<and>
      (delete_scenario st id_param :: 'e response \<times> MemStorage) =
        (\<lparr>status = 404, body = Message ''Scenario not found''\<rparr>, st)) \<and>
   (valid_positive_integer id_param \<longrightarrow>
      parseInt id_param = fl (of_int (int (digits_value 10 id_param))) \<and>
      parseInt id_param \<noteq> NaN \<and>
      (int (digits_value 10 id_param) \<le> 2 ^ 53 \<longrightarrow>
         parseInt id_param = Fin (of_int (int (digits_value 10 id_param))) \<and>
         (fst (getScenario st (int (digits_value 10 id_param))) = None \<longrightarrow>
            (get_scenario_by_id st id_param :: 'e response \<times> MemStorage) =
              (\<lparr>status = 404, body = Message ''Scenario not found''\<rparr>, st) \<and>
            (delete_scenario st id_param :: 'e response \<times> MemStorage) =
              (\<lparr>status = 404, body = Message ''Scenario not found''\<rparr>, st))))"
proof -
  let ?get = "get_scenario_by_id st id_param :: 'e response \<times> MemStorage"
  let ?del = "delete_scenario st id_param :: 'e response \<times> MemStorage"
  let ?v = "int (digits_value 10 id_param)"
  have bad: "?get = (\<lparr>status = 400, body = Message ''Invalid scenario ID''\<rparr>, st) \<and>
      ?del = (\<lparr>status = 400, body = Message ''Invalid scenario ID''\<rparr>, st)"
    if "parseInt id_param = NaN"
    using that by (simp add: get_scenario_by_id_def delete_scenario_def isNaN_def)
  have good: "status (fst ?get) \<noteq> 400 \<and> status (fst ?del) \<noteq> 400"
    if "parseInt id_param \<noteq> NaN"
    using that
    by (simp add: get_scenario_by_id_def delete_scenario_def isNaN_def Let_def
        split: prod.splits option.splits)
  have absent: "?get = (\<lparr>status = 404, body = Message ''Scenario not found''\<rparr>, st) \<and>
      ?del = (\<lparr>status = 404, body = Message ''Scenario not found''\<rparr>, st)"
    if "parseInt id_param \<noteq> NaN" and "fst (getScenario_number st (parseInt id_param)) = None"
    using that(1) absent_number [OF that(2)]
    by (simp add: get_scenario_by_id_def delete_scenario_def isNaN_def)
  have valid: "parseInt id_param = fl (of_int ?v) \<and> parseInt id_param \<noteq> NaN \<and>
      (?v \<le> 2 ^ 53 \<longrightarrow>
         parseInt id_param = Fin (of_int ?v) \<and>
         (fst (getScenario st ?v) = None \<longrightarrow>
            ?get = (\<lparr>status = 404, body = Message ''Scenario not found''\<rparr>, st) \<and>
            ?del = (\<lparr>status = 404, body = Message ''Scenario not found''\<rparr>, st)))"
    if v: "valid_positive_integer id_param"
  proof -
    have p: "parseInt id_param = fl (of_int ?v)"
      using v by (rule parseInt_valid_positive_integer)
    then have n: "parseInt id_param \<noteq> NaN" by simp
    have small: "parseInt id_param = Fin (of_int ?v) \<and>
         (fst (getScenario st ?v) = None \<longrightarrow>
            ?get = (\<lparr>status = 404, body = Message ''Scenario not found''\<rparr>, st) \<and>
            ?del = (\<lparr>status = 404, body = Message ''Scenario not found''\<rparr>, st))"
      if le: "?v \<le> 2 ^ 53"
    proof -
      have "\<bar>?v\<bar> \<le> 2 ^ 53" using le by simp
      then have "fl (of_int ?v) = Fin (of_int ?v)" by (rule fl_of_int_le)
      then have f: "parseInt id_param = Fin (of_int ?v)" by (simp only: p)
      have "fst (getScenario_number st (parseInt id_param)) = fst (getScenario st ?v)"
        by (simp only: f getScenario_number_def number_key_of_int option.case)
      then show ?thesis using f absent [OF n] by simp
    qed
    show ?thesis using p n small by blast
  qed
  show ?thesis using bad good absent valid by blast
qed

text \<open>
  What \<open>parseInt\<close> makes of some ids, among them one with a Unicode space in front and
  one beyond \<open>2 ^ 53\<close>, and which of them are valid positive integers.
\<close>

lemma parseInt_examples:
  "parseInt (str ''abc'') = NaN" "parseInt (str ''0'') = Fin 0" "parseInt (str ''1abc'') = Fin 1"
  "parseInt (str ''42'') = Fin 42" "parseInt (str ''-5'') = Fin (- 5)"
  "parseInt (str ''0x1F'') = Fin 31" "parseInt (str ''0xZ'') = NaN"
  "parseInt [0x2003, 0x37] = Fin 7"
  "parseInt (str ''9007199254740993'') = Fin 9007199254740992"
  using fl_of_int [of 1] fl_of_int [of 42] fl_of_int [of "- 5"] fl_of_int [of 31] fl_of_int [of 7]
  by (simp_all add: parseInt_def str_def StrWhiteSpaceChar_def is_digit_def digit_value_def
      digits_value_def Let_def fl_cert_tie [where e = 53 and m = 4503599627370496])

lemma valid_positive_integer_examples:
  "\<not> valid_positive_integer (str ''0'')" "\<not> valid_positive_integer (str ''1abc'')"
  "valid_positive_integer (str ''42'')" "\<not> valid_positive_integer (str ''-5'')"
  "valid_positive_integer (str ''9007199254740993'')"
  by (simp_all add: valid_positive_integer_def str_def is_digit_def digit_value_def
      digits_value_def Let_def)

section \<open>The store and the routes on particular inputs\<close>


lemmas store_eval = MemStorage_new_def initializeDefaultScenarios_def defaultScenarios_def
  getScenario_def getAllScenarios_def createScenario_def deleteScenario_def
  Map_get_def Map_delete_def Map_has_def Map_values_def Array_sort_def compare_createdAt_def
  ScenarioData.defs Scenario.defs Let_def

theorem getAllScenarios_sorted_witness:
  "reachable (MemStorage_new 10 20 30) \<and>
   snd (getAllScenarios (MemStorage_new 10 20 30)) = MemStorage_new 10 20 30 \<and>
   map Scenario.id (fst (getAllScenarios (MemStorage_new 10 20 30))) = [3, 2, 1] \<and>
   sorted_wrt (\<lambda>a b. createdAt b \<le> createdAt a) (fst (getAllScenarios (MemStorage_new 10 20 30)))"
  using getAllScenarios_sorted [OF reachable.new [of 10 20 30]] reachable.new [of 10 20 30]
  by (simp add: store_eval)

theorem deleteScenario_spec_witness:
  "reachable (MemStorage_new 10 20 30) \<and>
   fst (getScenario (MemStorage_new 10 20 30) 2) \<noteq> None \<and>
   fst (deleteScenario (MemStorage_new 10 20 30) 2) = True \<and>
   fst (getScenario (snd (deleteScenario (MemStorage_new 10 20 30) 2)) 2) = None \<and>
   fst (getScenario (snd (deleteScenario (MemStorage_new 10 20 30) 2)) 3) =
     fst (getScenario (MemStorage_new 10 20 30) 3) \<and>
   map Scenario.id (fst (getAllScenarios (snd (deleteScenario (MemStorage_new 10 20 30) 2)))) = [3, 1] \<and>
   fst (getScenario (MemStorage_new 10 20 30) 7) = None \<and>
   deleteScenario (MemStorage_new 10 20 30) 7 = (False, MemStorage_new 10 20 30)"
  using deleteScenario_spec [OF reachable.new [of 10 20 30], of 2]
    deleteScenario_spec [OF reachable.new [of 10 20 30], of 7] reachable.new [of 10 20 30]
  by (simp add: store_eval)

theorem createScenario_frame_witness:
  "reachable (MemStorage_new 10 20 30) \<and>
   Scenario.id (fst (createScenario (MemStorage_new 10 20 30)
      \<lparr>energyConsumption = Fin 1, wasteGeneration = Fin 2, waterUsage = Fin 3,
       rawMaterials = Fin 4, productionVolume = Fin 5, name = ''n'',
       carbonFootprint = Fin 6, waterEfficiency = Fin 7, energyEfficiency = Fin 8,
       sustainabilityScore = Fin 9\<rparr> 40)) = 4 \<and>
   fst (getScenario (MemStorage_new 10 20 30) 4) = None \<and>
   fst (getScenario (MemStorage_new 10 20 30) 1) \<noteq> None \<and>
   fst (getScenario (snd (createScenario (MemStorage_new 10 20 30)
      \<lparr>energyConsumption = Fin 1, wasteGeneration = Fin 2, waterUsage = Fin 3,
       rawMaterials = Fin 4, productionVolume = Fin 5, name = ''n'',
       carbonFootprint = Fin 6, waterEfficiency = Fin 7, energyEfficiency = Fin 8,
       sustainabilityScore = Fin 9\<rparr> 40)) 1) = fst (getScenario (MemStorage_new 10 20 30) 1)"
  using createScenario_frame [OF reachable.new [of 10 20 30] prod.collapse [symmetric],
      of "\<lparr>energyConsumption = Fin 1, wasteGeneration = Fin 2, waterUsage = Fin 3,
       rawMaterials = Fin 4, productionVolume = Fin 5, name = ''n'',
       carbonFootprint = Fin 6, waterEfficiency = Fin 7, energyEfficiency = Fin 8,
       sustainabilityScore = Fin 9\<rparr>" 40]
    reachable.new [of 10 20 30]
  by (simp add: store_eval)

lemmas route_eval = get_scenario_by_id_def delete_scenario_def isNaN_def
  getScenario_number_def deleteScenario_number_def number_key_def
  parseInt_examples valid_positive_integer_examples

text \<open>
  The claim C9 as it is stated fails in the new store: the id \<open>0\<close> is no valid positive
  integer and is answered with 404, and the id \<open>1abc\<close> is none either and is served,
  and deleted, as the id 1.
\<close>

theorem id_routes_counterexample:
  "\<not> valid_positive_integer (str ''0'') \<and>
   status (fst (get_scenario_by_id (MemStorage_new 10 20 30) (str ''0'')
     :: unit response \<times> MemStorage)) = 404 \<and>
   \<not> valid_positive_integer (str ''1abc'') \<and>
   status (fst (get_scenario_by_id (MemStorage_new 10 20 30) (str ''1abc'')
     :: unit response \<times> MemStorage)) = 200 \<and>
   (delete_scenario (MemStorage_new 10 20 30) (str ''1abc'') :: unit response \<times> MemStorage) =
     (\<lparr>status = 200, body = Message ''Scenario deleted successfully''\<rparr>,
      snd (deleteScenario (MemStorage_new 10 20 30) 1)) \<and>
   fst (getScenario (MemStorage_new 10 20 30) 1) \<noteq> None \<and>
   fst (getScenario (snd (deleteScenario (MemStorage_new 10 20 30) 1)) 1) = None"
  by (simp add: route_eval store_eval)

theorem id_routes_status_witness:
  "parseInt (str ''abc'') = NaN \<and>
   (get_scenario_by_id (MemStorage_new 10 20 30) (str ''abc'') :: unit response \<times> MemStorage) =
     (\<lparr>status = 400, body = Message ''Invalid scenario ID''\<rparr>, MemStorage_new 10 20 30) \<and>
   valid_positive_integer (str ''42'') \<and> parseInt (str ''42'') = Fin 42 \<and>
   parseInt (str ''42'') \<noteq> NaN \<and>
   int (digits_value 10 (str ''42'')) = 42 \<and> (42 :: int) \<le> 2 ^ 53 \<and>
   fst (getScenario_number (MemStorage_new 10 20 30) (parseInt (str ''42''))) = None \<and>
   fst (getScenario (MemStorage_new 10 20 30) 42) = None \<and>
   status (fst (get_scenario_by_id (MemStorage_new 10 20 30) (str ''42'')
     :: unit response \<times> MemStorage)) \<noteq> 400 \<and>
   (delete_scenario (MemStorage_new 10 20 30) (str ''42'') :: unit response \<times> MemStorage) =
     (\<lparr>status = 404, body = Message ''Scenario not found''\<rparr>, MemStorage_new 10 20 30)"
proof -
  have a: "parseInt (str ''abc'') = NaN" and b: "parseInt (str ''42'') = Fin 42"
    by (simp_all add: parseInt_examples)
  have v: "valid_positive_integer (str ''42'')" by (simp add: valid_positive_integer_examples)
  have d: "int (digits_value 10 (str ''42'')) = 42"
    by (simp add: digits_value_def digit_value_def str_def)
  have g: "fst (getScenario (MemStorage_new 10 20 30) 42) = None"
    by (simp add: store_eval)
  have n: "fst (getScenario_number (MemStorage_new 10 20 30) (parseInt (str ''42''))) = None"
    using g by (simp add: b getScenario_number_def number_key_def)
  show ?thesis
    using id_routes_status [of "str ''abc''" "MemStorage_new 10 20 30", where ?'e = unit]
      id_routes_status [of "str ''42''" "MemStorage_new 10 20 30", where ?'e = unit] a b v d g n
    by simp
qed

section \<open>The efficiencies\<close>


lemma js_le_refl: "x \<noteq> NaN \<Longrightarrow> js_le x x"
  by (cases x) simp_all

lemma js_le_PInf [simp]: "x \<noteq> NaN \<Longrightarrow> js_le x PInf"
  by (cases x) simp_all

lemma js_le_NInf [simp]: "x \<noteq> NaN \<Longrightarrow> js_le NInf x"
  by (cases x) simp_all

lemma floor_one_half [simp]: "\<lfloor>1 / 2 :: rat\<rfloor> = 0"
  by (rule floor_unique) simp_all

lemma js_sub_Fin_mono: "js_le u u' \<Longrightarrow> js_le (js_sub u (Fin b)) (js_sub u' (Fin b))"
  by (cases u; cases u') (simp_all add: js_sub_def fl_mono)

lemma js_div_Fin_mono: "0 < b \<Longrightarrow> js_le v v' \<Longrightarrow> js_le (js_div v (Fin b)) (js_div v' (Fin b))"
  by (cases v; cases v') (simp_all add: fl_mono divide_right_mono)

lemma js_mul_Fin_mono: "0 < c \<Longrightarrow> js_le w w' \<Longrightarrow> js_le (js_mul w (Fin c)) (js_mul w' (Fin c))"
  by (cases w; cases w') (simp_all add: fl_mono mult_right_mono)

lemma js_sub_Fin_anti: "js_le z z' \<Longrightarrow> js_le (js_sub (Fin a) z') (js_sub (Fin a) z)"
  by (cases z; cases z') (simp_all add: js_sub_def fl_mono)

text \<open>The expression both efficiencies are computed by, before it is clamped.\<close>

lemma efficiency_anti:
  assumes "0 < b" and "js_le u u'"
  shows "js_le (js_sub (Fin 100) (js_mul (js_div (js_sub u' (Fin b)) (Fin b)) (Fin 100)))
               (js_sub (Fin 100) (js_mul (js_div (js_sub u (Fin b)) (Fin b)) (Fin 100)))"
  using assms
  by (intro js_sub_Fin_anti js_mul_Fin_mono js_div_Fin_mono js_sub_Fin_mono) simp_all

lemma js_le_not_NaN: "js_le x y \<Longrightarrow> x \<noteq> NaN \<and> y \<noteq> NaN"
  by (cases x; cases y) simp_all

lemma efficiency_not_NaN:
  assumes "0 < b" and "u \<noteq> NaN"
  shows "js_sub (Fin 100) (js_mul (js_div (js_sub u (Fin b)) (Fin b)) (Fin 100)) \<noteq> NaN"
  using efficiency_anti [OF assms(1) js_le_refl [OF assms(2)]] js_le_not_NaN by blast

lemma clamp_range:
  assumes "t \<noteq> NaN"
  shows "\<exists>c. Math_max (Fin 0) (Math_min (Fin 100) t) = Fin c \<and> 0 \<le> c \<and> c \<le> 100"
  using assms by (cases t) auto

lemma clamp_high: "js_le (Fin 100) t \<Longrightarrow> Math_max (Fin 0) (Math_min (Fin 100) t) = Fin 100"
  by (cases t) auto

lemma clamp_low: "js_le t (Fin 0) \<Longrightarrow> Math_max (Fin 0) (Math_min (Fin 100) t) = Fin 0"
  by (cases t) auto

lemma Math_round_range:
  assumes "0 \<le> c" and "c \<le> 100"
  shows "Math_round (Fin c) = Fin (of_int \<lfloor>c + 1 / 2\<rfloor>)"
    and "0 \<le> \<lfloor>c + 1 / 2\<rfloor>" and "\<lfloor>c + 1 / 2\<rfloor> \<le> 100"
proof -
  show "Math_round (Fin c) = Fin (of_int \<lfloor>c + 1 / 2\<rfloor>)" by simp
  show "0 \<le> \<lfloor>c + 1 / 2\<rfloor>" using assms(1) by (simp add: zero_le_floor)
  have "c + 1 / 2 < 101" using assms(2) by simp
  then have "\<lfloor>c + 1 / 2\<rfloor> < 101" by (simp add: floor_less_iff)
  then show "\<lfloor>c + 1 / 2\<rfloor> \<le> 100" by simp
qed

lemma lit_consts: "lit (25 / 10) = Fin (5 / 2)" "lit (5 / 10) = Fin (1 / 2)"
  using fl_half_int [of 5] fl_half_int [of 1] by (simp_all add: lit_def)

lemma fl_consts:
  "fl 100 = Fin 100" "fl 1 = Fin 1" "fl (5 / 2) = Fin (5 / 2)" "fl (1 / 2) = Fin (1 / 2)"
  using fl_of_int [of 100] fl_of_int [of 1] fl_half_int [of 5] fl_half_int [of 1] by simp_all

lemma water_thresholds:
  "js_sub (Fin 100) (js_mul (js_div (js_sub (Fin (5 / 2)) (Fin (5 / 2))) (Fin (5 / 2))) (Fin 100)) = Fin 100"
  "js_sub (Fin 100) (js_mul (js_div (js_sub (Fin 5) (Fin (5 / 2))) (Fin (5 / 2))) (Fin 100)) = Fin 0"
  by (simp_all add: js_sub_def fl_consts)

lemma energy_thresholds:
  "js_sub (Fin 100) (js_mul (js_div (js_sub (Fin (1 / 2)) (Fin (1 / 2))) (Fin (1 / 2))) (Fin 100)) = Fin 100"
  "js_sub (Fin 100) (js_mul (js_div (js_sub (Fin 1) (Fin (1 / 2))) (Fin (1 / 2))) (Fin 100)) = Fin 0"
  by (simp_all add: js_sub_def fl_consts)

lemma waterEfficiency_local_range:
  assumes "waterUsage p = Fin wu" and "productionVolume p = Fin pv" and "0 < pv"
  shows "\<exists>c. waterEfficiency_local p = Fin c \<and> 0 \<le> c \<and> c \<le> 100"
proof -
  have "js_div (waterUsage p) (productionVolume p) \<noteq> NaN" using assms by simp
  then show ?thesis
    unfolding waterEfficiency_local_def Let_def lit_consts
    by (intro clamp_range efficiency_not_NaN) simp_all
qed

lemma energyEfficiency_local_range:
  assumes "energyConsumption p = Fin ec" and "productionVolume p = Fin pv" and "0 < pv"
  shows "\<exists>c. energyEfficiency_local p = Fin c \<and> 0 \<le> c \<and> c \<le> 100"
proof -
  have "js_div (energyConsumption p) (productionVolume p) \<noteq> NaN" using assms by simp
  then show ?thesis
    unfolding energyEfficiency_local_def Let_def lit_consts
    by (intro clamp_range efficiency_not_NaN) simp_all
qed

lemma waterEfficiency_local_boundary:
  assumes "waterUsage p = Fin wu" and "productionVolume p = Fin pv" and "0 < pv"
  shows "wu / pv \<le> 5 / 2 \<Longrightarrow> waterEfficiency_local p = Fin 100"
    and "5 \<le> wu / pv \<Longrightarrow> waterEfficiency_local p = Fin 0"
proof -
  have u: "js_div (waterUsage p) (productionVolume p) = fl (wu / pv)" using assms by simp
  {
    assume "wu / pv \<le> 5 / 2"
    then have "js_le (fl (wu / pv)) (Fin (5 / 2))"
      using fl_mono [of "wu / pv" "5 / 2"] by (simp add: fl_consts)
    then show "waterEfficiency_local p = Fin 100"
      unfolding waterEfficiency_local_def Let_def lit_consts u
      using efficiency_anti [of "5 / 2" "fl (wu / pv)" "Fin (5 / 2)"]
      by (simp add: water_thresholds clamp_high)
  }
  {
    assume "5 \<le> wu / pv"
    then have "js_le (Fin 5) (fl (wu / pv))"
      using fl_mono [of 5 "wu / pv"] fl_of_int [of 5] by simp
    then show "waterEfficiency_local p = Fin 0"
      unfolding waterEfficiency_local_def Let_def lit_consts u
      using efficiency_anti [of "5 / 2" "Fin 5" "fl (wu / pv)"]
      by (simp add: water_thresholds clamp_low)
  }
qed

lemma energyEfficiency_local_boundary:
  assumes "energyConsumption p = Fin ec" and "productionVolume p = Fin pv" and "0 < pv"
  shows "ec / pv \<le> 1 / 2 \<Longrightarrow> energyEfficiency_local p = Fin 100"
    and "1 \<le> ec / pv \<Longrightarrow> energyEfficiency_local p = Fin 0"
proof -
  have u: "js_div (energyConsumption p) (productionVolume p) = fl (ec / pv)" using assms by simp
  {
    assume "ec / pv \<le> 1 / 2"
    then have "js_le (fl (ec / pv)) (Fin (1 / 2))"
      using fl_mono [of "ec / pv" "1 / 2"] by (simp add: fl_consts)
    then show "energyEfficiency_local p = Fin 100"
      unfolding energyEfficiency_local_def Let_def lit_consts u
      using efficiency_anti [of "1 / 2" "fl (ec / pv)" "Fin (1 / 2)"]
      by (simp add: energy_thresholds clamp_high)
  }
  {
    assume "1 \<le> ec / pv"
    then have "js_le (Fin 1) (fl (ec / pv))"
      using fl_mono [of 1 "ec / pv"] by (simp add: fl_consts)
    then show "energyEfficiency_local p = Fin 0"
      unfolding energyEfficiency_local_def Let_def lit_consts u
      using efficiency_anti [of "1 / 2" "Fin 1" "fl (ec / pv)"]
      by (simp add: energy_thresholds clamp_low)
  }
qed

text \<open>
  Claim C6. For parameters whose energy consumption, water usage and production volume
  are finite numbers, the volume above zero: each efficiency the function returns is
  \<open>Math.round\<close> of a value already clamped to the interval from 0 to 100, and is itself
  an integer from 0 to 100. Water usage per unit at or below the baseline 2.5 gives
  water efficiency 100, and from twice the baseline on it gives 0; energy per unit at or
  below the baseline 0.5 gives energy efficiency 100, and from twice the baseline on 0.
\<close>

theorem efficiencies_clamped_then_rounded:
  assumes "energyConsumption p = Fin ec" and "waterUsage p = Fin wu"
    and "productionVolume p = Fin pv" and "0 < pv"
  shows "(\<exists>cw ce.
            waterEfficiency_local p = Fin cw \<and> 0 \<le> cw \<and> cw \<le> 100 \<and>
            energyEfficiency_local p = Fin ce \<and> 0 \<le> ce \<and> ce \<le> 100 \<and>
            SustainabilityMetrics.waterEfficiency (calculateSustainabilityMetrics p) =
              Fin (of_int \<lfloor>cw + 1 / 2\<rfloor>) \<and>
            0 \<le> \<lfloor>cw + 1 / 2\<rfloor> \<and> \<lfloor>cw + 1 / 2\<rfloor> \<le> 100 \<and>
            SustainabilityMetrics.energyEfficiency (calculateSustainabilityMetrics p) =
              Fin (of_int \<lfloor>ce + 1 / 2\<rfloor>) \<and>
            0 \<le> \<lfloor>ce + 1 / 2\<rfloor> \<and> \<lfloor>ce + 1 / 2\<rfloor> \<le> 100) \<and>
         (wu / pv \<le> 5 / 2 \<longrightarrow>
            SustainabilityMetrics.waterEfficiency (calculateSustainabilityMetrics p) = Fin 100) \<and>
         (5 \<le> wu / pv \<longrightarrow>
            SustainabilityMetrics.waterEfficiency (calculateSustainabilityMetrics p) = Fin 0) \<and>
         (ec / pv \<le> 1 / 2 \<longrightarrow>
            SustainabilityMetrics.energyEfficiency (calculateSustainabilityMetrics p) = Fin 100) \<and>
         (1 \<le> ec / pv \<longrightarrow>
            SustainabilityMetrics.energyEfficiency (calculateSustainabilityMetrics p) = Fin 0)"
proof -
  obtain cw where cw: "waterEfficiency_local p = Fin cw" "0 \<le> cw" "cw \<le> 100"
    using waterEfficiency_local_range [OF assms(2,3,4)] by blast
  obtain ce where ce: "energyEfficiency_local p = Fin ce" "0 \<le> ce" "ce \<le> 100"
    using energyEfficiency_local_range [OF assms(1,3,4)] by blast
  have range: "\<exists>cw ce.
            waterEfficiency_local p = Fin cw \<and> 0 \<le> cw \<and> cw \<le> 100 \<and>
            energyEfficiency_local p = Fin ce \<and> 0 \<le> ce \<and> ce \<le> 100 \<and>
            SustainabilityMetrics.waterEfficiency (calculateSustainabilityMetrics p) =
              Fin (of_int \<lfloor>cw + 1 / 2\<rfloor>) \<and>
            0 \<le> \<lfloor>cw + 1 / 2\<rfloor> \<and> \<lfloor>cw + 1 / 2\<rfloor> \<le> 100 \<and>
            SustainabilityMetrics.energyEfficiency (calculateSustainabilityMetrics p) =
              Fin (of_int \<lfloor>ce + 1 / 2\<rfloor>) \<and>
            0 \<le> \<lfloor>ce + 1 / 2\<rfloor> \<and> \<lfloor>ce + 1 / 2\<rfloor> \<le> 100"
    using cw ce Math_round_range(2,3) [OF cw(2,3)] Math_round_range(2,3) [OF ce(2,3)]
    by (intro exI [of _ cw] exI [of _ ce]) (simp add: calculateSustainabilityMetrics_def)
  have w: "wu / pv \<le> 5 / 2 \<longrightarrow>
            SustainabilityMetrics.waterEfficiency (calculateSustainabilityMetrics p) = Fin 100"
    "5 \<le> wu / pv \<longrightarrow>
            SustainabilityMetrics.waterEfficiency (calculateSustainabilityMetrics p) = Fin 0"
    using waterEfficiency_local_boundary [OF assms(2,3,4)]
    by (simp_all add: calculateSustainabilityMetrics_def)
  have e: "ec / pv \<le> 1 / 2 \<longrightarrow>
            SustainabilityMetrics.energyEfficiency (calculateSustainabilityMetrics p) = Fin 100"
    "1 \<le> ec / pv \<longrightarrow>
            SustainabilityMetrics.energyEfficiency (calculateSustainabilityMetrics p) = Fin 0"
    using energyEfficiency_local_boundary [OF assms(1,3,4)]
    by (simp_all add: calculateSustainabilityMetrics_def)
  show ?thesis using range w e by blast
qed

section \<open>The score\<close>


lemma fl_bounded:
  assumes "of_int lo \<le> x" and "x \<le> of_int hi" and "\<bar>lo\<bar> < 2 ^ 53" and "\<bar>hi\<bar> < 2 ^ 53"
  shows "fl x = Fin (rnd x)" and "of_int lo \<le> rnd x" and "rnd x \<le> of_int hi"
proof -
  show lo: "of_int lo \<le> rnd x"
    using rnd_mono [OF assms(1)] rnd_of_int [OF assms(3)] by simp
  show hi: "rnd x \<le> of_int hi"
    using rnd_mono [OF assms(2)] rnd_of_int [OF assms(4)] by simp
  have "(of_int hi :: rat) \<le> \<bar>of_int hi\<bar>" by simp
  also have "\<bar>of_int hi :: rat\<bar> < of_int (2 ^ 53)"
    using assms(4) by (metis of_int_abs of_int_less_iff)
  also have "(of_int (2 ^ 53) :: rat) < 2 powi 1024" by simp
  finally have h: "rnd x < 2 powi 1024" using hi by linarith
  have "- (of_int lo :: rat) \<le> \<bar>of_int lo\<bar>" by simp
  also have "\<bar>of_int lo :: rat\<bar> < of_int (2 ^ 53)"
    using assms(3) by (metis of_int_abs of_int_less_iff)
  also have "(of_int (2 ^ 53) :: rat) < 2 powi 1024" by simp
  finally have l: "- (2 powi 1024) < rnd x" using lo by linarith
  show "fl x = Fin (rnd x)" using h l by (simp add: fl_rnd)
qed

lemma score_deviation:
  assumes "0 \<le> a" and "a \<le> 100" and "0 \<le> b" and "b \<le> 100"
  shows "\<exists>n m. Math_round (js_div (js_add (Fin a) (Fin b)) (Fin 2)) = Fin (of_int n) \<and>
               Math_round (js_div (js_add (Math_round (Fin a)) (Math_round (Fin b))) (Fin 2)) =
                 Fin (of_int m) \<and>
               \<bar>n - m\<bar> \<le> 1 \<and> 0 \<le> n \<and> n \<le> 100"
proof -
  define F where "F = \<lfloor>(a + b) / 2\<rfloor>"
  have F: "of_int F \<le> (a + b) / 2" "(a + b) / 2 < of_int F + 1"
    unfolding F_def by linarith+
  have F0: "0 \<le> F" unfolding F_def using assms by (simp add: zero_le_floor)
  have "(a + b) / 2 < 101" using assms by simp
  then have "F < 101" unfolding F_def by (simp add: floor_less_iff)
  then have F100: "F \<le> 100" by simp
  \<comment> \<open>the sum and its half, as the function computes them\<close>
  have s1: "of_int (2 * F) \<le> a + b" and s2: "a + b \<le> of_int (2 * F + 2)"
    using F by simp_all
  have sb: "\<bar>2 * F\<bar> < 2 ^ 53" "\<bar>2 * F + 2\<bar> < 2 ^ 53" using F0 F100 by simp_all
  note s = fl_bounded [OF s1 s2 sb]
  have t1: "of_int F \<le> rnd (a + b) / 2" and t2: "rnd (a + b) / 2 \<le> of_int (F + 1)"
    using s(2,3) by simp_all
  have tb: "\<bar>F\<bar> < 2 ^ 53" "\<bar>F + 1\<bar> < 2 ^ 53" using F0 F100 by simp_all
  note t = fl_bounded [OF t1 t2 tb]
  define n where "n = \<lfloor>rnd (rnd (a + b) / 2) + 1 / 2\<rfloor>"
  have code: "Math_round (js_div (js_add (Fin a) (Fin b)) (Fin 2)) = Fin (of_int n)"
    by (simp add: s(1) t(1) n_def)
  have "of_int F \<le> rnd (rnd (a + b) / 2) + 1 / 2" using t(2) by linarith
  then have n1: "F \<le> n" unfolding n_def by (simp add: le_floor_iff)
  have "rnd (rnd (a + b) / 2) + 1 / 2 < of_int (F + 2)" using t(3) by simp
  then have "n < F + 2" unfolding n_def by (simp only: floor_less_iff)
  then have n2: "n \<le> F + 1" by simp
  have u2: "rnd (a + b) / 2 \<le> of_int 100"
  proof -
    have "a + b \<le> of_int 200" using assms by simp
    then have "rnd (a + b) \<le> rnd (of_int 200)" by (rule rnd_mono)
    then have "rnd (a + b) \<le> 200" using rnd_of_int [of 200] by simp
    then show ?thesis by simp
  qed
  have "rnd (rnd (a + b) / 2) \<le> rnd (of_int 100)" using u2 by (rule rnd_mono)
  then have "rnd (rnd (a + b) / 2) \<le> 100" using rnd_of_int [of 100] by simp
  then have "rnd (rnd (a + b) / 2) + 1 / 2 < of_int 101" by simp
  then have "n < 101" unfolding n_def by (simp only: floor_less_iff)
  then have n100: "n \<le> 100" by simp
  \<comment> \<open>the same from the rounded efficiencies\<close>
  define A where "A = \<lfloor>a + 1 / 2\<rfloor>"
  define B where "B = \<lfloor>b + 1 / 2\<rfloor>"
  have A: "of_int A \<le> a + 1 / 2" "a + 1 / 2 < of_int A + 1"
    and B: "of_int B \<le> b + 1 / 2" "b + 1 / 2 < of_int B + 1"
    unfolding A_def B_def by linarith+
  have A0: "0 \<le> A" "A \<le> 100" and B0: "0 \<le> B" "B \<le> 100"
    unfolding A_def B_def
    using Math_round_range(2,3) [OF assms(1,2)] Math_round_range(2,3) [OF assms(3,4)] by simp_all
  have AB: "\<bar>A + B\<bar> < 2 ^ 53" using A0 B0 by simp
  define m where "m = \<lfloor>of_int (A + B) / 2 + 1 / 2 :: rat\<rfloor>"
  have "js_add (Math_round (Fin a)) (Math_round (Fin b)) = fl (of_int (A + B))"
    by (simp add: A_def B_def)
  also have "\<dots> = Fin (of_int (A + B))" using AB by (rule fl_of_int)
  finally have "js_div (js_add (Math_round (Fin a)) (Math_round (Fin b))) (Fin 2)
      = fl (of_int (A + B) / 2)"
    by simp
  also have "\<dots> = Fin (of_int (A + B) / 2)" using AB by (rule fl_half_int)
  finally have claim: "Math_round (js_div (js_add (Math_round (Fin a)) (Math_round (Fin b))) (Fin 2))
      = Fin (of_int m)"
    by (simp add: m_def)
  have ab: "(of_int (A + B) :: rat) = of_int A + of_int B" by simp
  have "of_int F \<le> (of_int (A + B) / 2 + 1 / 2 :: rat)"
    unfolding ab using F(1) A(2) B(2) by (simp add: field_simps)
  then have m1: "F \<le> m" unfolding m_def by (simp only: le_floor_iff)
  have f2: "(of_int (F + 2) :: rat) = of_int F + 2" by simp
  have "(of_int (A + B) / 2 + 1 / 2 :: rat) < of_int (F + 2)"
    unfolding ab f2 using F(2) A(1) B(1) by (simp add: field_simps)
  then have "m < F + 2" unfolding m_def by (simp only: floor_less_iff)
  then have m2: "m \<le> F + 1" by simp
  have "\<bar>n - m\<bar> \<le> 1" using n1 n2 m1 m2 by linarith
  then show ?thesis using code claim n1 F0 n100 by (intro exI [of _ n] exI [of _ m]) simp
qed

text \<open>
  Claim C1, as amended. For parameters whose energy consumption, water usage and
  production volume are finite numbers, the volume above zero, the score the function
  returns is \<open>Math.round\<close> of half the sum of the two clamped efficiencies as they are
  before rounding, the values whose roundings it returns as \<open>waterEfficiency\<close> and
  \<open>energyEfficiency\<close>. The score is an integer from 0 to 100, and the value computed from
  the two returned, rounded efficiencies is an integer at most 1 away from it.
\<close>

theorem sustainabilityScore_from_unrounded:
  assumes "energyConsumption p = Fin ec" and "waterUsage p = Fin wu"
    and "productionVolume p = Fin pv" and "0 < pv"
  shows "SustainabilityMetrics.sustainabilityScore (calculateSustainabilityMetrics p) =
           Math_round (js_div (js_add (waterEfficiency_local p) (energyEfficiency_local p)) (Fin 2)) \<and>
         SustainabilityMetrics.waterEfficiency (calculateSustainabilityMetrics p) =
           Math_round (waterEfficiency_local p) \<and>
         SustainabilityMetrics.energyEfficiency (calculateSustainabilityMetrics p) =
           Math_round (energyEfficiency_local p) \<and>
         (\<exists>n m. SustainabilityMetrics.sustainabilityScore (calculateSustainabilityMetrics p) =
                  Fin (of_int n) \<and>
                Math_round (js_div
                  (js_add (SustainabilityMetrics.waterEfficiency (calculateSustainabilityMetrics p))
                          (SustainabilityMetrics.energyEfficiency (calculateSustainabilityMetrics p)))
                  (Fin 2)) = Fin (of_int m) \<and>
                \<bar>n - m\<bar> \<le> 1 \<and> 0 \<le> n \<and> n \<le> 100)"
proof -
  obtain cw where cw: "waterEfficiency_local p = Fin cw" "0 \<le> cw" "cw \<le> 100"
    using waterEfficiency_local_range [OF assms(2,3,4)] by blast
  obtain ce where ce: "energyEfficiency_local p = Fin ce" "0 \<le> ce" "ce \<le> 100"
    using energyEfficiency_local_range [OF assms(1,3,4)] by blast
  show ?thesis
    using score_deviation [OF cw(2,3) ce(2,3)]
    by (simp add: calculateSustainabilityMetrics_def sustainabilityScore_local_def cw(1) ce(1))
qed

section \<open>The function on particular parameters\<close>

text \<open>
  Each rounding of a computation is justified by its exponent and its integer
  significand, which \<open>fl_cert\<close> checks.
\<close>

lemma calc_scenario_A:
  assumes "energyConsumption p = Fin 5000" and "wasteGeneration p = Fin 1200"
    and "waterUsage p = Fin 25000" and "productionVolume p = Fin 10000"
  shows "calculateSustainabilityMetrics p =
     \<lparr>SustainabilityMetrics.carbonFootprint = Fin (4165829655317709 / 1125899906842624),
      SustainabilityMetrics.waterEfficiency = Fin 100,
      SustainabilityMetrics.energyEfficiency = Fin 100,
      SustainabilityMetrics.sustainabilityScore = Fin 100\<rparr>"
  by (simp add: assms calc_defs
      fl_cert [where e = "- 11" and m = 4611686018427388]
      fl_cert [where e = "- 10" and m = 4611686018427388]
      fl_cert [where e = 1 and m = 5629499534213120]
      fl_cert [where e = 0 and m = 5404319552844595]
      fl_cert_tie [where e = 1 and m = 8331659310635417]
      fl_cert [where e = 6 and m = 7036874417766400]
      fl_cert [where e = "- 1" and m = 4503599627370496]
      fl_cert [where e = 7 and m = 7036874417766400]
      fl_cert [where e = 5 and m = 5207287069147136]
      fl_cert [where e = 1 and m = 8331659310635418])

lemma calc_scenario_B:
  assumes "energyConsumption p = Fin 3500" and "wasteGeneration p = Fin 800"
    and "waterUsage p = Fin 18000" and "productionVolume p = Fin 10000"
  shows "calculateSustainabilityMetrics p =
     \<lparr>SustainabilityMetrics.carbonFootprint = Fin (5854679515581645 / 2251799813685248),
      SustainabilityMetrics.waterEfficiency = Fin 100,
      SustainabilityMetrics.energyEfficiency = Fin 100,
      SustainabilityMetrics.sustainabilityScore = Fin 100\<rparr>"
  by (simp add: assms calc_defs
      fl_cert [where e = "- 11" and m = 4611686018427388]
      fl_cert [where e = "- 10" and m = 4611686018427388]
      fl_cert [where e = 0 and m = 7881299347898368]
      fl_cert [where e = "- 1" and m = 7205759403792794]
      fl_cert_tie [where e = 1 and m = 5742089524897382]
      fl_cert [where e = 1 and m = 5629499534213120]
      fl_cert [where e = 0 and m = 8106479329266893]
      fl_cert [where e = "- 1" and m = "- 6305039478318694"]
      fl_cert [where e = "- 2" and m = "- 5044031582654955"]
      fl_cert [where e = 4 and m = "- 7881299347898367"]
      fl_cert [where e = 6 and m = 9007199254740992]
      fl_cert [where e = "- 1" and m = 4503599627370496]
      fl_cert [where e = "- 2" and m = 6305039478318694]
      fl_cert [where e = "- 3" and m = "- 5404319552844596"]
      fl_cert [where e = "- 2" and m = "- 5404319552844596"]
      fl_cert [where e = 4 and m = "- 8444249301319681"]
      fl_cert [where e = 7 and m = 4573968371548160]
      fl_cert [where e = 7 and m = 7036874417766400]
      fl_cert [where e = 6 and m = 7036874417766400]
      fl_cert_tie [where e = 4 and m = 7177611906121727]
      fl_cert [where e = 1 and m = 5854679515581645])

lemma calc_scenario_C:
  assumes "energyConsumption p = Fin 5000" and "wasteGeneration p = Fin 1200"
    and "waterUsage p = Fin 25350" and "productionVolume p = Fin 10000"
  shows "calculateSustainabilityMetrics p =
     \<lparr>SustainabilityMetrics.carbonFootprint = Fin (4165829655317709 / 1125899906842624),
      SustainabilityMetrics.waterEfficiency = Fin 99,
      SustainabilityMetrics.energyEfficiency = Fin 100,
      SustainabilityMetrics.sustainabilityScore = Fin 99\<rparr>"
  by (simp add: assms calc_defs
      fl_cert [where e = "- 11" and m = 4611686018427388]
      fl_cert [where e = "- 10" and m = 4611686018427388]
      fl_cert [where e = 1 and m = 5629499534213120]
      fl_cert [where e = 0 and m = 5404319552844595]
      fl_cert_tie [where e = 1 and m = 8331659310635417]
      fl_cert [where e = 1 and m = 5708312527692104]
      fl_cert [where e = "- 5" and m = 5044031582654976]
      fl_cert [where e = "- 7" and m = 8070450532247962]
      fl_cert [where e = 0 and m = 6305039478318720]
      fl_cert [where e = 6 and m = 6938358175917670]
      fl_cert [where e = "- 1" and m = 4503599627370496]
      fl_cert [where e = 6 and m = 7036874417766400]
      fl_cert [where e = 7 and m = 6987616296842035]
      fl_cert [where e = 6 and m = 6987616296842035]
      fl_cert [where e = 5 and m = 5207287069147136]
      fl_cert [where e = 1 and m = 8331659310635418])

lemma calc_scenario_Z:
  assumes "energyConsumption p = Fin 10000" and "wasteGeneration p = Fin 1200"
    and "waterUsage p = Fin 50000" and "productionVolume p = Fin 10000"
  shows "calculateSustainabilityMetrics p =
     \<lparr>SustainabilityMetrics.carbonFootprint = Fin (6980579422424269 / 1125899906842624),
      SustainabilityMetrics.waterEfficiency = Fin 0,
      SustainabilityMetrics.energyEfficiency = Fin 0,
      SustainabilityMetrics.sustainabilityScore = Fin 0\<rparr>"
  by (simp add: assms calc_defs
      fl_cert [where e = "- 11" and m = 4611686018427388]
      fl_cert [where e = "- 10" and m = 4611686018427388]
      fl_cert [where e = 2 and m = 5629499534213120]
      fl_cert [where e = 0 and m = 5404319552844595]
      fl_cert [where e = 2 and m = 6980579422424269]
      fl_cert [where e = 1 and m = 5629499534213120]
      fl_cert [where e = 0 and m = 4503599627370496]
      fl_cert [where e = 6 and m = 7036874417766400]
      fl_cert [where e = "- 1" and m = 4503599627370496]
      fl_cert [where e = 5 and m = 8725724278030336])

lemma lit_values:
  "lit (14 / 5) = Fin (3152519739159347 / 1125899906842624)"
  "lit (37 / 10) = Fin (4165829655317709 / 1125899906842624)"
  "lit 2 = Fin 2"
  "lit (13 / 5) = Fin (5854679515581645 / 2251799813685248)"
  "lit (7 / 5) = Fin (3152519739159347 / 2251799813685248)"
  by (simp_all add: lit_def
      fl_cert [where e = 1 and m = 6305039478318694]
      fl_cert [where e = 1 and m = 8331659310635418]
      fl_cert [where e = 1 and m = 4503599627370496]
      fl_cert [where e = 1 and m = 5854679515581645]
      fl_cert [where e = 0 and m = 6305039478318694])

text \<open>
  Claim C2, as amended. On the parameters of scenario A (energy 5000, waste 1200, water
  25000, raw materials 8000, volume 10000) the function returns carbonFootprint 3.7,
  waterEfficiency 100, energyEfficiency 100 and sustainabilityScore 100: water and
  energy per unit are exactly the baselines.
\<close>

theorem calculate_scenario_A:
  "calculateSustainabilityMetrics
     \<lparr>energyConsumption = Fin 5000, wasteGeneration = Fin 1200,
        waterUsage = Fin 25000, rawMaterials = Fin 8000, productionVolume = Fin 10000\<rparr> =
   \<lparr>SustainabilityMetrics.carbonFootprint = lit (37 / 10),
    SustainabilityMetrics.waterEfficiency = Fin 100,
    SustainabilityMetrics.energyEfficiency = Fin 100,
    SustainabilityMetrics.sustainabilityScore = Fin 100\<rparr>"
  by (simp add: calc_scenario_A lit_values)

text \<open>The values the claim C2 states, 2.8, 72 and 85, are none of them what is returned.\<close>

theorem calculate_scenario_A_counterexample:
  "SustainabilityMetrics.carbonFootprint (calculateSustainabilityMetrics
     \<lparr>energyConsumption = Fin 5000, wasteGeneration = Fin 1200,
        waterUsage = Fin 25000, rawMaterials = Fin 8000, productionVolume = Fin 10000\<rparr>) \<noteq> lit (28 / 10) \<and>
   SustainabilityMetrics.waterEfficiency (calculateSustainabilityMetrics
     \<lparr>energyConsumption = Fin 5000, wasteGeneration = Fin 1200,
        waterUsage = Fin 25000, rawMaterials = Fin 8000, productionVolume = Fin 10000\<rparr>) \<noteq> Fin 72 \<and>
   SustainabilityMetrics.energyEfficiency (calculateSustainabilityMetrics
     \<lparr>energyConsumption = Fin 5000, wasteGeneration = Fin 1200,
        waterUsage = Fin 25000, rawMaterials = Fin 8000, productionVolume = Fin 10000\<rparr>) \<noteq> Fin 85"
  by (simp add: calc_scenario_A lit_values)

text \<open>
  Claim C3, as amended. On the parameters of scenario B (energy 3500, waste 800, water
  18000, raw materials 7500, volume 10000) the function returns carbonFootprint 2.6,
  waterEfficiency 100, energyEfficiency 100 and sustainabilityScore 100: water and
  energy per unit are below the baselines.
\<close>

theorem calculate_scenario_B:
  "calculateSustainabilityMetrics
     \<lparr>energyConsumption = Fin 3500, wasteGeneration = Fin 800,
        waterUsage = Fin 18000, rawMaterials = Fin 7500, productionVolume = Fin 10000\<rparr> =
   \<lparr>SustainabilityMetrics.carbonFootprint = lit (26 / 10),
    SustainabilityMetrics.waterEfficiency = Fin 100,
    SustainabilityMetrics.energyEfficiency = Fin 100,
    SustainabilityMetrics.sustainabilityScore = Fin 100\<rparr>"
  by (simp add: calc_scenario_B lit_values)

text \<open>The values the claim C3 states, 2.0, 85 and 92, are none of them what is returned.\<close>

theorem calculate_scenario_B_counterexample:
  "SustainabilityMetrics.carbonFootprint (calculateSustainabilityMetrics
     \<lparr>energyConsumption = Fin 3500, wasteGeneration = Fin 800,
        waterUsage = Fin 18000, rawMaterials = Fin 7500, productionVolume = Fin 10000\<rparr>) \<noteq> lit 2 \<and>
   SustainabilityMetrics.waterEfficiency (calculateSustainabilityMetrics
     \<lparr>energyConsumption = Fin 3500, wasteGeneration = Fin 800,
        waterUsage = Fin 18000, rawMaterials = Fin 7500, productionVolume = Fin 10000\<rparr>) \<noteq> Fin 85 \<and>
   SustainabilityMetrics.energyEfficiency (calculateSustainabilityMetrics
     \<lparr>energyConsumption = Fin 3500, wasteGeneration = Fin 800,
        waterUsage = Fin 18000, rawMaterials = Fin 7500, productionVolume = Fin 10000\<rparr>) \<noteq> Fin 92"
  by (simp add: calc_scenario_B lit_values)

text \<open>
  The claim C1 as it is stated fails for water usage 25350 at volume 10000: the clamped
  water efficiency is about 98.6 and the energy efficiency 100, so the function returns
  the efficiencies 99 and 100 and the score 99, the rounding of about 99.3, while the
  rounding of (99 + 100) / 2 is 100.
\<close>

theorem sustainabilityScore_counterexample:
  "productionVolume \<lparr>energyConsumption = Fin 5000, wasteGeneration = Fin 1200,
        waterUsage = Fin 25350, rawMaterials = Fin 8000, productionVolume = Fin 10000\<rparr> = Fin 10000 \<and>
   SustainabilityMetrics.waterEfficiency (calculateSustainabilityMetrics
     \<lparr>energyConsumption = Fin 5000, wasteGeneration = Fin 1200,
        waterUsage = Fin 25350, rawMaterials = Fin 8000, productionVolume = Fin 10000\<rparr>) = Fin 99 \<and>
   SustainabilityMetrics.energyEfficiency (calculateSustainabilityMetrics
     \<lparr>energyConsumption = Fin 5000, wasteGeneration = Fin 1200,
        waterUsage = Fin 25350, rawMaterials = Fin 8000, productionVolume = Fin 10000\<rparr>) = Fin 100 \<and>
   SustainabilityMetrics.sustainabilityScore (calculateSustainabilityMetrics
     \<lparr>energyConsumption = Fin 5000, wasteGeneration = Fin 1200,
        waterUsage = Fin 25350, rawMaterials = Fin 8000, productionVolume = Fin 10000\<rparr>) = Fin 99 \<and>
   Math_round (js_div (js_add
       (SustainabilityMetrics.waterEfficiency (calculateSustainabilityMetrics
     \<lparr>energyConsumption = Fin 5000, wasteGeneration = Fin 1200,
        waterUsage = Fin 25350, rawMaterials = Fin 8000, productionVolume = Fin 10000\<rparr>))
       (SustainabilityMetrics.energyEfficiency (calculateSustainabilityMetrics
     \<lparr>energyConsumption = Fin 5000, wasteGeneration = Fin 1200,
        waterUsage = Fin 25350, rawMaterials = Fin 8000, productionVolume = Fin 10000\<rparr>))) (Fin 2)) = Fin 100"
  using fl_of_int [of 199] fl_half_int [of 199] by (simp add: calc_scenario_C)

theorem sustainabilityScore_from_unrounded_witness:
  "energyConsumption \<lparr>energyConsumption = Fin 5000, wasteGeneration = Fin 1200,
        waterUsage = Fin 25350, rawMaterials = Fin 8000, productionVolume = Fin 10000\<rparr> = Fin 5000 \<and>
   waterUsage \<lparr>energyConsumption = Fin 5000, wasteGeneration = Fin 1200,
        waterUsage = Fin 25350, rawMaterials = Fin 8000, productionVolume = Fin 10000\<rparr> = Fin 25350 \<and>
   productionVolume \<lparr>energyConsumption = Fin 5000, wasteGeneration = Fin 1200,
        waterUsage = Fin 25350, rawMaterials = Fin 8000, productionVolume = Fin 10000\<rparr> = Fin 10000 \<and>
   (0 :: rat) < 10000 \<and>
   Math_round (js_div (js_add
       (waterEfficiency_local \<lparr>energyConsumption = Fin 5000, wasteGeneration = Fin 1200,
        waterUsage = Fin 25350, rawMaterials = Fin 8000, productionVolume = Fin 10000\<rparr>)
       (energyEfficiency_local \<lparr>energyConsumption = Fin 5000, wasteGeneration = Fin 1200,
        waterUsage = Fin 25350, rawMaterials = Fin 8000, productionVolume = Fin 10000\<rparr>)) (Fin 2)) = Fin 99"
  using sustainabilityScore_from_unrounded [of "\<lparr>energyConsumption = Fin 5000, wasteGeneration = Fin 1200,
        waterUsage = Fin 25350, rawMaterials = Fin 8000, productionVolume = Fin 10000\<rparr>" 5000 25350 10000]
  by (simp add: calc_scenario_C)

theorem efficiencies_clamped_then_rounded_witness:
  "(25000 :: rat) / 10000 \<le> 5 / 2 \<and> (5000 :: rat) / 10000 \<le> 1 / 2 \<and>
   SustainabilityMetrics.waterEfficiency (calculateSustainabilityMetrics
     \<lparr>energyConsumption = Fin 5000, wasteGeneration = Fin 1200,
        waterUsage = Fin 25000, rawMaterials = Fin 8000, productionVolume = Fin 10000\<rparr>) = Fin 100 \<and>
   SustainabilityMetrics.energyEfficiency (calculateSustainabilityMetrics
     \<lparr>energyConsumption = Fin 5000, wasteGeneration = Fin 1200,
        waterUsage = Fin 25000, rawMaterials = Fin 8000, productionVolume = Fin 10000\<rparr>) = Fin 100 \<and>
   (5 :: rat) \<le> 50000 / 10000 \<and> (1 :: rat) \<le> 10000 / 10000 \<and>
   SustainabilityMetrics.waterEfficiency (calculateSustainabilityMetrics
     \<lparr>energyConsumption = Fin 10000, wasteGeneration = Fin 1200,
        waterUsage = Fin 50000, rawMaterials = Fin 8000, productionVolume = Fin 10000\<rparr>) = Fin 0 \<and>
   SustainabilityMetrics.energyEfficiency (calculateSustainabilityMetrics
     \<lparr>energyConsumption = Fin 10000, wasteGeneration = Fin 1200,
        waterUsage = Fin 50000, rawMaterials = Fin 8000, productionVolume = Fin 10000\<rparr>) = Fin 0"
  using efficiencies_clamped_then_rounded [of "\<lparr>energyConsumption = Fin 5000, wasteGeneration = Fin 1200,
        waterUsage = Fin 25000, rawMaterials = Fin 8000, productionVolume = Fin 10000\<rparr>" 5000 25000 10000]
    efficiencies_clamped_then_rounded [of "\<lparr>energyConsumption = Fin 10000, wasteGeneration = Fin 1200,
        waterUsage = Fin 50000, rawMaterials = Fin 8000, productionVolume = Fin 10000\<rparr>" 10000 50000 10000]
  by simp

section \<open>The metrics of the stored scenarios\<close>

lemma calculateSustainabilityMetrics_cong:
  assumes "energyConsumption p = energyConsumption q" and "wasteGeneration p = wasteGeneration q"
    and "waterUsage p = waterUsage q" and "productionVolume p = productionVolume q"
  shows "calculateSustainabilityMetrics p = calculateSustainabilityMetrics q"
  using assms
  by (simp add: calculateSustainabilityMetrics_def carbonFootprint_local_def
      waterEfficiency_local_def energyEfficiency_local_def sustainabilityScore_local_def)

lemma created_consistent:
  assumes "createScenario st (spread d (calculateSustainabilityMetrics d)) now = (sc, st')"
  shows "metrics_of sc = calculateSustainabilityMetrics sc"
proof -
  have sc: "sc = ScenarioData.extend (spread d (calculateSustainabilityMetrics d))
      (Scenario.fields (currentId st) now)"
    using assms by (auto simp: createScenario_def Let_def)
  have "calculateSustainabilityMetrics sc = calculateSustainabilityMetrics d"
    by (rule calculateSustainabilityMetrics_cong)
       (simp_all add: sc spread_def ScenarioData.defs Scenario.defs InsertScenario.defs)
  moreover have "metrics_of sc = calculateSustainabilityMetrics d"
    by (simp add: sc metrics_of_def spread_def ScenarioData.defs Scenario.defs InsertScenario.defs)
  ultimately show ?thesis by simp
qed

lemma get_scenario_by_id_store:
  "snd (get_scenario_by_id st x :: 'e response \<times> MemStorage) = st"
  by (simp add: get_scenario_by_id_def getScenario_number_def getScenario_def Let_def
      split: option.splits)

lemma delete_scenario_store:
  "snd (delete_scenario st x :: 'e response \<times> MemStorage) = st \<or>
   (\<exists>n. snd (delete_scenario st x :: 'e response \<times> MemStorage) = snd (deleteScenario st n))"
proof (cases "isNaN (parseInt x)")
  case True
  then show ?thesis by (simp add: delete_scenario_def)
next
  case False
  show ?thesis
  proof (cases "number_key (parseInt x)")
    case None
    then show ?thesis using False by (simp add: delete_scenario_def deleteScenario_number_def)
  next
    case (Some n)
    then have "snd (delete_scenario st x :: 'e response \<times> MemStorage) = snd (deleteScenario st n)"
      using False
      by (simp add: delete_scenario_def deleteScenario_number_def Let_def split: prod.splits)
    then show ?thesis by blast
  qed
qed

lemma handle_consistent:
  fixes pp :: "'b \<Rightarrow> 'e + ProcessParameters" and ins :: "'b \<Rightarrow> 'e + InsertScenario"
  assumes inv: "\<And>i s. Map_get (scenarios st) i = Some s \<Longrightarrow> 3 < i \<Longrightarrow>
      metrics_of s = calculateSustainabilityMetrics s"
    and get: "Map_get (scenarios (snd (handle pp ins st req))) i = Some s" and i: "3 < i"
  shows "metrics_of s = calculateSustainabilityMetrics s"
proof (cases req)
  case GET_scenarios
  then show ?thesis using inv get i by (simp add: get_scenarios_def getAllScenarios_def)
next
  case (GET_scenario x)
  then show ?thesis
    using inv get i get_scenario_by_id_store [of st x, where ?'e = 'e] by simp
next
  case (POST_calculate_metrics b)
  then show ?thesis
    using inv get i by (simp add: post_calculate_metrics_def split: sum.splits)
next
  case (POST_scenarios b now)
  show ?thesis
  proof (cases "ins b")
    case (Inl e)
    then show ?thesis using inv get i POST_scenarios by (simp add: post_scenarios_def)
  next
    case (Inr d)
    obtain sc st' where c:
      "createScenario st (spread d (calculateSustainabilityMetrics d)) now = (sc, st')"
      by (cases "createScenario st (spread d (calculateSustainabilityMetrics d)) now")
    have st': "scenarios st' = Map_set (scenarios st) (currentId st) sc"
      using c by (auto simp: createScenario_def Let_def)
    have "Map_get (scenarios st') i = Some s"
      using get POST_scenarios Inr c by (simp add: post_scenarios_def Let_def)
    then have "s = sc \<or> Map_get (scenarios st) i = Some s"
      by (simp add: st' Map_get_Map_set split: if_splits)
    then show ?thesis using created_consistent [OF c] inv i by blast
  qed
next
  case (DELETE_scenario x)
  have g: "Map_get (scenarios (snd (delete_scenario st x :: 'e response \<times> MemStorage))) i = Some s"
    using get DELETE_scenario by simp
  consider "snd (delete_scenario st x :: 'e response \<times> MemStorage) = st"
    | n where "snd (delete_scenario st x :: 'e response \<times> MemStorage) = snd (deleteScenario st n)"
    using delete_scenario_store [of st x, where ?'e = 'e] by blast
  then show ?thesis
  proof cases
    case 1
    then show ?thesis using inv g i by simp
  next
    case 2
    then have "Map_get (filter (\<lambda>e. fst e \<noteq> n) (scenarios st)) i = Some s"
      using g by (simp add: deleteScenario_def Map_delete_def)
    then have "Map_get (scenarios st) i = Some s"
      by (simp add: Map_get_filter split: if_splits)
    then show ?thesis using inv i by blast
  qed
qed

text \<open>
  Claim C4, as amended. In every state the server goes through, every stored scenario
  other than the three seeds, that is every scenario with an id above 3, which is what
  the create route adds, carries the metrics that the calculation gives for its own
  parameters. Nothing is said of the seeds, whose metrics are literals of the source.
\<close>

theorem created_metrics_consistent:
  assumes "served pp ins st" and "fst (getScenario st i) = Some s" and "3 < i"
  shows "metrics_of s = calculateSustainabilityMetrics s"
proof -
  have "\<forall>i s. Map_get (scenarios st) i = Some s \<longrightarrow> 3 < i \<longrightarrow>
      metrics_of s = calculateSustainabilityMetrics s"
    using assms(1)
  proof (induction rule: served.induct)
    case (start t1 t2 t3)
    have "set (map fst (scenarios (MemStorage_new t1 t2 t3))) = {1, 2, 3}"
      by (simp only: MemStorage_new_eval) auto
    then have "fst ` set (scenarios (MemStorage_new t1 t2 t3)) = {1, 2, 3}"
      by (simp only: set_map)
    then have "\<And>i. 3 < i \<Longrightarrow> Map_get (scenarios (MemStorage_new t1 t2 t3)) i = None"
      by (simp add: Map_get_None_iff)
    then show ?case by fastforce
  next
    case (request st req)
    then show ?case using handle_consistent [of st pp ins req] by blast
  qed
  then show ?thesis using assms(2,3) by (simp add: getScenario_def)
qed

text \<open>
  The claim C4 as it is stated fails in the new store: the first seed has the parameters
  of scenario A and carries the metrics 2.8, 72, 85 and 76, while the calculation gives
  3.7, 100, 100 and 100 for them.
\<close>

theorem seed_metrics_counterexample:
  "reachable (MemStorage_new 10 20 30) \<and>
   fst (getScenario (MemStorage_new 10 20 30) 1) \<noteq> None \<and>
   metrics_of (the (fst (getScenario (MemStorage_new 10 20 30) 1))) =
     \<lparr>SustainabilityMetrics.carbonFootprint = lit (28 / 10),
      SustainabilityMetrics.waterEfficiency = Fin 72,
      SustainabilityMetrics.energyEfficiency = Fin 85,
      SustainabilityMetrics.sustainabilityScore = Fin 76\<rparr> \<and>
   calculateSustainabilityMetrics (the (fst (getScenario (MemStorage_new 10 20 30) 1))) =
     \<lparr>SustainabilityMetrics.carbonFootprint = lit (37 / 10),
      SustainabilityMetrics.waterEfficiency = Fin 100,
      SustainabilityMetrics.energyEfficiency = Fin 100,
      SustainabilityMetrics.sustainabilityScore = Fin 100\<rparr> \<and>
   metrics_of (the (fst (getScenario (MemStorage_new 10 20 30) 1))) \<noteq>
     calculateSustainabilityMetrics (the (fst (getScenario (MemStorage_new 10 20 30) 1)))"
  using reachable.new [of 10 20 30]
  by (simp add: store_eval metrics_of_def calc_scenario_A lit_values)

theorem created_metrics_consistent_witness:
  "served (\<lambda>b. Inl ()) Inr
     (snd (handle (\<lambda>b. Inl ()) Inr (MemStorage_new 10 20 30)
        (POST_scenarios
           \<lparr>energyConsumption = Fin 5000, wasteGeneration = Fin 1200, waterUsage = Fin 25000,
            rawMaterials = Fin 8000, productionVolume = Fin 10000, name = ''A''\<rparr> 40))) \<and>
   fst (getScenario
     (snd (handle (\<lambda>b. Inl ()) Inr (MemStorage_new 10 20 30)
        (POST_scenarios
           \<lparr>energyConsumption = Fin 5000, wasteGeneration = Fin 1200, waterUsage = Fin 25000,
            rawMaterials = Fin 8000, productionVolume = Fin 10000, name = ''A''\<rparr> 40))) 4) =
     Some \<lparr>energyConsumption = Fin 5000, wasteGeneration = Fin 1200, waterUsage = Fin 25000,
            rawMaterials = Fin 8000, productionVolume = Fin 10000, name = ''A'',
            carbonFootprint = lit (37 / 10), waterEfficiency = Fin 100,
            energyEfficiency = Fin 100, sustainabilityScore = Fin 100,
            id = 4, createdAt = 40\<rparr> \<and>
   (3 :: int) < 4 \<and>
   metrics_of \<lparr>energyConsumption = Fin 5000, wasteGeneration = Fin 1200, waterUsage = Fin 25000,
            rawMaterials = Fin 8000, productionVolume = Fin 10000, name = ''A'',
            carbonFootprint = lit (37 / 10), waterEfficiency = Fin 100,
            energyEfficiency = Fin 100, sustainabilityScore = Fin 100,
            id = 4, createdAt = 40\<rparr> =
   calculateSustainabilityMetrics
          \<lparr>energyConsumption = Fin 5000, wasteGeneration = Fin 1200, waterUsage = Fin 25000,
            rawMaterials = Fin 8000, productionVolume = Fin 10000, name = ''A'',
            carbonFootprint = lit (37 / 10), waterEfficiency = Fin 100,
            energyEfficiency = Fin 100, sustainabilityScore = Fin 100,
            id = 4, createdAt = 40\<rparr>"
proof -
  let ?pp = "(\<lambda>b. Inl ()) :: InsertScenario \<Rightarrow> unit + ProcessParameters"
  let ?ins = "Inr :: InsertScenario \<Rightarrow> unit + InsertScenario"
  let ?A = "\<lparr>energyConsumption = Fin 5000, wasteGeneration = Fin 1200, waterUsage = Fin 25000,
            rawMaterials = Fin 8000, productionVolume = Fin 10000, name = ''A''\<rparr>"
  let ?st = "snd (handle ?pp ?ins (MemStorage_new 10 20 30) (POST_scenarios ?A 40))"
  let ?S = "\<lparr>energyConsumption = Fin 5000, wasteGeneration = Fin 1200, waterUsage = Fin 25000,
            rawMaterials = Fin 8000, productionVolume = Fin 10000, name = ''A'',
            carbonFootprint = lit (37 / 10), waterEfficiency = Fin 100,
            energyEfficiency = Fin 100, sustainabilityScore = Fin 100,
            id = 4, createdAt = 40\<rparr>"
  have r: "served ?pp ?ins ?st"
    by (rule served.request) (rule served.start)
  have g: "fst (getScenario ?st 4) = Some ?S"
    by (simp add: post_scenarios_def spread_def calc_scenario_A lit_values store_eval
        InsertScenario.defs)
  show ?thesis
    using created_metrics_consistent [OF r g] r g by simp
qed

section \<open>Further properties\<close>

text \<open>
  In every reachable store the keys of the map are pairwise different, every key is the
  id of the scenario it leads to, and every key is positive and below the counter.
\<close>

theorem store_keys_are_ids:
  assumes "reachable st"
  shows "distinct (map fst (scenarios st)) \<and> 0 < currentId st \<and>
         (\<forall>k s. fst (getScenario st k) = Some s \<longrightarrow>
            Scenario.id s = k \<and> 0 < k \<and> k < currentId st)"
proof -
  have inv: "store_inv st" using assms by (rule reachable_inv)
  then have d: "distinct (map fst (scenarios st))" and c: "0 < currentId st"
    and e: "\<And>e. e \<in> set (scenarios st) \<Longrightarrow>
      Scenario.id (snd e) = fst e \<and> 0 < fst e \<and> fst e < currentId st"
    by (auto simp: store_inv_def list_all_iff)
  have "Scenario.id s = k \<and> 0 < k \<and> k < currentId st"
    if "fst (getScenario st k) = Some s" for k s
  proof -
    have "(k, s) \<in> set (scenarios st)"
      using that d by (simp add: getScenario_def Map_get_Some_iff)
    then show ?thesis using e [of "(k, s)"] by simp
  qed
  then show ?thesis using d c by blast
qed

theorem store_keys_are_ids_witness:
  "reachable (MemStorage_new 10 20 30) \<and>
   map fst (scenarios (MemStorage_new 10 20 30)) = [1, 2, 3] \<and>
   currentId (MemStorage_new 10 20 30) = 4 \<and>
   fst (getScenario (MemStorage_new 10 20 30) 2) \<noteq> None \<and>
   Scenario.id (the (fst (getScenario (MemStorage_new 10 20 30) 2))) = 2"
  using store_keys_are_ids [OF reachable.new [of 10 20 30]] reachable.new [of 10 20 30]
  by (simp add: store_eval)

text \<open>
  The create route. A body the schema rejects is answered with 400 and the errors, and
  the store is left as it is. A body it accepts is answered with 200 and the new
  scenario: its id is the counter's value, its time the time of the request, its name
  and parameters are the parsed ones, and its metrics are the calculation on them; the
  store holds it under that id, and the counter has moved on by one.
\<close>

theorem post_scenarios_creates:
  fixes ins :: "'b \<Rightarrow> 'e + InsertScenario"
  shows "(\<forall>errors. ins b = Inl errors \<longrightarrow>
            post_scenarios ins st b now =
              (\<lparr>status = 400, body = MessageErrors ''Invalid scenario data'' errors\<rparr>, st)) \<and>
         (\<forall>d. ins b = Inr d \<longrightarrow>
            (\<exists>sc st'. post_scenarios ins st b now = (\<lparr>status = 200, body = ScenarioBody sc\<rparr>, st') \<and>
               Scenario.id sc = currentId st \<and> createdAt sc = now \<and> name sc = name d \<and>
               energyConsumption sc = energyConsumption d \<and>
               wasteGeneration sc = wasteGeneration d \<and>
               waterUsage sc = waterUsage d \<and>
               rawMaterials sc = rawMaterials d \<and>
               productionVolume sc = productionVolume d \<and>
               metrics_of sc = calculateSustainabilityMetrics d \<and>
               fst (getScenario st' (currentId st)) = Some sc \<and>
               currentId st' = currentId st + 1))"
proof (intro conjI allI impI)
  fix errors assume "ins b = Inl errors"
  then show "post_scenarios ins st b now =
      (\<lparr>status = 400, body = MessageErrors ''Invalid scenario data'' errors\<rparr>, st)"
    by (simp add: post_scenarios_def)
next
  fix d assume d: "ins b = Inr d"
  let ?sc = "ScenarioData.extend (spread d (calculateSustainabilityMetrics d))
      (Scenario.fields (currentId st) now)"
  let ?st' = "st\<lparr>currentId := currentId st + 1,
      scenarios := Map_set (scenarios st) (currentId st) ?sc\<rparr>"
  have "post_scenarios ins st b now = (\<lparr>status = 200, body = ScenarioBody ?sc\<rparr>, ?st')"
    using d by (simp add: post_scenarios_def createScenario_def Let_def)
  moreover have "Scenario.id ?sc = currentId st \<and> createdAt ?sc = now \<and> name ?sc = name d \<and>
               energyConsumption ?sc = energyConsumption d \<and>
               wasteGeneration ?sc = wasteGeneration d \<and>
               waterUsage ?sc = waterUsage d \<and>
               rawMaterials ?sc = rawMaterials d \<and>
               productionVolume ?sc = productionVolume d \<and>
               metrics_of ?sc = calculateSustainabilityMetrics d"
    by (simp add: spread_def metrics_of_def ScenarioData.defs Scenario.defs InsertScenario.defs)
  moreover have "fst (getScenario ?st' (currentId st)) = Some ?sc"
    by (simp add: getScenario_def Map_get_Map_set)
  moreover have "currentId ?st' = currentId st + 1" by simp
  ultimately show "\<exists>sc st'. post_scenarios ins st b now =
        (\<lparr>status = 200, body = ScenarioBody sc\<rparr>, st') \<and>
      Scenario.id sc = currentId st \<and> createdAt sc = now \<and> name sc = name d \<and>
      energyConsumption sc = energyConsumption d \<and>
      wasteGeneration sc = wasteGeneration d \<and>
      waterUsage sc = waterUsage d \<and>
      rawMaterials sc = rawMaterials d \<and>
      productionVolume sc = productionVolume d \<and>
      metrics_of sc = calculateSustainabilityMetrics d \<and>
      fst (getScenario st' (currentId st)) = Some sc \<and>
      currentId st' = currentId st + 1"
    by blast
qed

theorem post_scenarios_creates_witness:
  "(post_scenarios (\<lambda>b. if b then Inr
        \<lparr>energyConsumption = Fin 5000, wasteGeneration = Fin 1200, waterUsage = Fin 25000,
         rawMaterials = Fin 8000, productionVolume = Fin 10000, name = ''A''\<rparr>
       else Inl ()) (MemStorage_new 10 20 30) False 40) =
     (\<lparr>status = 400, body = MessageErrors ''Invalid scenario data'' ()\<rparr>, MemStorage_new 10 20 30) \<and>
   fst (post_scenarios (\<lambda>b. if b then Inr
        \<lparr>energyConsumption = Fin 5000, wasteGeneration = Fin 1200, waterUsage = Fin 25000,
         rawMaterials = Fin 8000, productionVolume = Fin 10000, name = ''A''\<rparr>
       else Inl ()) (MemStorage_new 10 20 30) True 40) =
     \<lparr>status = 200, body = ScenarioBody
        \<lparr>energyConsumption = Fin 5000, wasteGeneration = Fin 1200, waterUsage = Fin 25000,
         rawMaterials = Fin 8000, productionVolume = Fin 10000, name = ''A'',
         carbonFootprint = lit (37 / 10), waterEfficiency = Fin 100,
         energyEfficiency = Fin 100, sustainabilityScore = Fin 100,
         id = 4, createdAt = 40\<rparr>\<rparr>"
  using post_scenarios_creates [of "\<lambda>b. if b then Inr
        \<lparr>energyConsumption = Fin 5000, wasteGeneration = Fin 1200, waterUsage = Fin 25000,
         rawMaterials = Fin 8000, productionVolume = Fin 10000, name = ''A''\<rparr>
       else Inl ()" False "MemStorage_new 10 20 30" 40]
    post_scenarios_creates [of "\<lambda>b. if b then Inr
        \<lparr>energyConsumption = Fin 5000, wasteGeneration = Fin 1200, waterUsage = Fin 25000,
         rawMaterials = Fin 8000, productionVolume = Fin 10000, name = ''A''\<rparr>
       else Inl ()" True "MemStorage_new 10 20 30" 40]
  by (simp add: post_scenarios_def spread_def calc_scenario_A lit_values store_eval
      InsertScenario.defs)

lemma filter_sort_insert:
  "filter (\<lambda>s. createdAt s = t) (sort_insert compare_createdAt x ys) =
     (if createdAt x = t then x # filter (\<lambda>s. createdAt s = t) ys
      else filter (\<lambda>s. createdAt s = t) ys)"
  by (induction ys) (auto simp: compare_createdAt_def)

lemma filter_Array_sort:
  "filter (\<lambda>s. createdAt s = t) (Array_sort compare_createdAt xs) =
     filter (\<lambda>s. createdAt s = t) xs"
  by (induction xs) (simp_all add: Array_sort_def filter_sort_insert)

text \<open>
  \<open>getAllScenarios\<close> is stable: the scenarios of one creation time come in the order in
  which the map holds them, which is the order in which they were stored.
\<close>

theorem getAllScenarios_stable:
  "filter (\<lambda>s. createdAt s = t) (fst (getAllScenarios st)) =
     filter (\<lambda>s. createdAt s = t) (Map_values (scenarios st))"
  by (simp add: getAllScenarios_def filter_Array_sort)

lemma fl_bounded_pow:
  assumes "0 \<le> x" and "x \<le> 2 powi k" and "- 1074 \<le> k" and "k < 1024"
  shows "fl x = Fin (rnd x)" and "0 \<le> rnd x" and "rnd x \<le> 2 powi k"
proof -
  show lo: "0 \<le> rnd x" using assms(1) by (rule rnd_nonneg)
  have "rnd (of_int 1 * 2 powi k) = of_int 1 * 2 powi k"
    using assms(3) by (intro rnd_exact) simp_all
  then show hi: "rnd x \<le> 2 powi k" using rnd_mono [OF assms(2)] by simp
  have "(2::rat) powi k < 2 powi 1024" using assms(4) by (rule powi2_strict_mono)
  then show "fl x = Fin (rnd x)" using lo hi by (simp add: fl_rnd)
qed

lemma carbon_consts:
  "lit (1 / 2000) = Fin (1152921504606847 / 2305843009213693952)"
  "lit (1 / 1000) = Fin (1152921504606847 / 1152921504606846976)"
  by (simp_all add: lit_def
      fl_cert [where e = "- 11" and m = 4611686018427388]
      fl_cert [where e = "- 10" and m = 4611686018427388])

text \<open>
  The carbon footprint. For energy consumption and waste that are binary64 values and
  not negative, the function returns a finite number that is not negative and has one
  decimal: the binary64 value nearest to a tenth of an integer.
\<close>

theorem carbonFootprint_one_decimal:
  assumes "energyConsumption p = Fin ec" and "0 \<le> ec" and "ec < 2 powi 1024"
    and "wasteGeneration p = Fin wg" and "0 \<le> wg" and "wg < 2 powi 1024"
  shows "\<exists>n c. 0 \<le> n \<and> 0 \<le> c \<and>
           SustainabilityMetrics.carbonFootprint (calculateSustainabilityMetrics p) = Fin c \<and>
           fl (of_int n / 10) = Fin c"
proof -
  let ?c1 = "1152921504606847 / 2305843009213693952 :: rat"
  let ?c2 = "1152921504606847 / 1152921504606846976 :: rat"
  have "ec * ?c1 \<le> 2 powi 1024 * 2 powi (- 10)"
    using assms(2,3) by (intro mult_mono) simp_all
  then have a1: "ec * ?c1 \<le> 2 powi 1014" by (simp add: powi2_add [symmetric])
  have a0: "0 \<le> ec * ?c1" using assms(2) by simp
  have a: "fl (ec * ?c1) = Fin (rnd (ec * ?c1))" "0 \<le> rnd (ec * ?c1)" "rnd (ec * ?c1) \<le> 2 powi 1014"
    using fl_bounded_pow [OF a0 a1] by simp_all
  have "wg * ?c2 \<le> 2 powi 1024 * 2 powi (- 9)"
    using assms(5,6) by (intro mult_mono) simp_all
  then have b1: "wg * ?c2 \<le> 2 powi 1015" by (simp add: powi2_add [symmetric])
  have b0: "0 \<le> wg * ?c2" using assms(5) by simp
  have b: "fl (wg * ?c2) = Fin (rnd (wg * ?c2))" "0 \<le> rnd (wg * ?c2)" "rnd (wg * ?c2) \<le> 2 powi 1015"
    using fl_bounded_pow [OF b0 b1] by simp_all
  let ?a = "rnd (ec * ?c1)" and ?b = "rnd (wg * ?c2)"
  have "(2::rat) powi 1014 + 2 powi 1015 \<le> 2 powi 1016" by simp
  then have s1: "?a + ?b \<le> 2 powi 1016" using a(3) b(3) by linarith
  have s0: "0 \<le> ?a + ?b" using a(2) b(2) by linarith
  have s: "fl (?a + ?b) = Fin (rnd (?a + ?b))" "0 \<le> rnd (?a + ?b)"
    "rnd (?a + ?b) \<le> 2 powi 1016"
    using fl_bounded_pow [OF s0 s1] by simp_all
  let ?s = "rnd (?a + ?b)"
  have "?s * 10 \<le> 2 powi 1016 * 2 powi 4"
    using s(2,3) by (intro mult_mono) simp_all
  then have t1: "?s * 10 \<le> 2 powi 1020" by (simp add: powi2_add [symmetric])
  have t0: "0 \<le> ?s * 10" using s(2) by simp
  have t: "fl (?s * 10) = Fin (rnd (?s * 10))" "0 \<le> rnd (?s * 10)"
    "rnd (?s * 10) \<le> 2 powi 1020"
    using fl_bounded_pow [OF t0 t1] by simp_all
  let ?t = "rnd (?s * 10)"
  define n where "n = \<lfloor>?t + 1 / 2\<rfloor>"
  have n0: "0 \<le> n" unfolding n_def using t(2) by (simp add: zero_le_floor)
  have "(of_int n :: rat) \<le> ?t + 1 / 2" unfolding n_def by linarith
  also have "\<dots> \<le> 2 powi 1020 + 1 / 2" using t(3) by simp
  finally have "(of_int n :: rat) / 10 \<le> (2 powi 1020 + 1 / 2) / 10"
    by (simp add: divide_right_mono)
  also have "\<dots> \<le> 2 powi 1020" by simp
  finally have u1: "(of_int n :: rat) / 10 \<le> 2 powi 1020" .
  have u0: "0 \<le> (of_int n :: rat) / 10" using n0 by simp
  have u: "fl (of_int n / 10) = Fin (rnd (of_int n / 10))" "0 \<le> rnd (of_int n / 10)"
    using fl_bounded_pow [OF u0 u1] by simp_all
  have "carbonFootprint_local p = js_add (js_mul (Fin ec) (Fin ?c1)) (js_mul (Fin wg) (Fin ?c2))"
    by (simp add: carbonFootprint_local_def assms(1,4) carbon_consts)
  also have "\<dots> = js_add (fl (ec * ?c1)) (fl (wg * ?c2))" by (simp only: js_mul.simps)
  also have "\<dots> = js_add (Fin ?a) (Fin ?b)" by (simp only: a(1) b(1))
  also have "\<dots> = fl (?a + ?b)" by (simp only: js_add.simps)
  also have "\<dots> = Fin ?s" by (simp only: s(1))
  finally have local: "carbonFootprint_local p = Fin ?s" .
  have "SustainabilityMetrics.carbonFootprint (calculateSustainabilityMetrics p) =
      js_div (Math_round (js_mul (Fin ?s) (Fin 10))) (Fin 10)"
    by (simp add: calculateSustainabilityMetrics_def local)
  also have "\<dots> = js_div (Math_round (fl (?s * 10))) (Fin 10)" by (simp only: js_mul.simps)
  also have "\<dots> = js_div (Math_round (Fin ?t)) (Fin 10)" by (simp only: t(1))
  also have "\<dots> = js_div (Fin (of_int n)) (Fin 10)" by (simp only: Math_round.simps n_def)
  also have "\<dots> = fl (of_int n / 10)" by simp
  finally have "SustainabilityMetrics.carbonFootprint (calculateSustainabilityMetrics p) =
      fl (of_int n / 10)" .
  then show ?thesis using n0 u(1,2) by auto
qed

theorem carbonFootprint_one_decimal_witness:
  "(0 :: rat) \<le> 5000 \<and> (5000 :: rat) < 2 powi 1024 \<and> (0 :: rat) \<le> 1200 \<and>
   (1200 :: rat) < 2 powi 1024 \<and>
   SustainabilityMetrics.carbonFootprint (calculateSustainabilityMetrics
     \<lparr>energyConsumption = Fin 5000, wasteGeneration = Fin 1200,
        waterUsage = Fin 25000, rawMaterials = Fin 8000, productionVolume = Fin 10000\<rparr>) =
     fl (of_int 37 / 10)"
  using carbonFootprint_one_decimal [of "\<lparr>energyConsumption = Fin 5000, wasteGeneration = Fin 1200,
        waterUsage = Fin 25000, rawMaterials = Fin 8000, productionVolume = Fin 10000\<rparr>" 5000 1200]
  by (simp add: calc_scenario_A fl_cert [where e = 1 and m = 8331659310635418])

end
